theory Spec2Isabelle
  imports Main "HOL-Library.Word"
begin

section \<open>Text produced by the C++ output streams\<close>

text \<open>
  Both bridges build their text with \<^verbatim>\<open>std::ostringstream\<close>. A \<^verbatim>\<open>std::string\<close> is a
  sequence of bytes, modelled as a \<^typ>\<open>string\<close> (a list of 8-bit \<^typ>\<open>char\<close>). The stream
  inserters for integers belong to the C++ library, not to the repository; they are
  written out here as the standard defines them: digits of the value in the stream's
  base, most significant first, no leading zeros, a minus sign for a negative decimal.
\<close>

definition hex_digit :: "nat \<Rightarrow> char" where
  "hex_digit d = ''0123456789abcdef'' ! d"

definition dec_digit :: "nat \<Rightarrow> char" where
  "dec_digit d = ''0123456789'' ! d"

fun to_hex :: "nat \<Rightarrow> string" where
  "to_hex n = (if n < 16 then [hex_digit n] else to_hex (n div 16) @ [hex_digit (n mod 16)])"

fun to_dec :: "nat \<Rightarrow> string" where
  "to_dec n = (if n < 10 then [dec_digit n] else to_dec (n div 10) @ [dec_digit (n mod 10)])"

declare to_hex.simps [simp del]
declare to_dec.simps [simp del]

text \<open>\<^verbatim>\<open>ss << std::hex << x\<close> for an \<^verbatim>\<open>int\<close>: a negative value is written as the
  32-bit two's complement pattern.\<close>

definition hex_int :: "int \<Rightarrow> string" where
  "hex_int x = to_hex (nat (x mod 2 ^ 32))"

text \<open>\<^verbatim>\<open>std::setw(w) << std::setfill(f)\<close> before one insertion: the text is padded on the
  left up to the width; a longer text is not cut.\<close>

definition setw_setfill :: "nat \<Rightarrow> char \<Rightarrow> string \<Rightarrow> string" where
  "setw_setfill w f s = replicate (w - length s) f @ s"

text \<open>\<^verbatim>\<open>json << v\<close> for \<^verbatim>\<open>uint64_t\<close> and \<^verbatim>\<open>int64_t\<close> on a stream in its default
  (decimal) state.\<close>

definition put_uint64 :: "64 word \<Rightarrow> string" where
  "put_uint64 v = to_dec (unat v)"

definition put_int64 :: "64 word \<Rightarrow> string" where
  "put_int64 v = (if sint v < 0 then CHR ''-'' # to_dec (nat (- sint v)) else to_dec (nat (sint v)))"

section \<open>escapeJsonString\<close>

text \<open>
  The loop variable is a plain \<^verbatim>\<open>char\<close>, whose signedness depends on the target (signed
  on iOS and x86 Android, unsigned on ARM Android). The flag \<open>sg\<close> says whether
  \<^verbatim>\<open>char\<close> is signed; \<open>char_to_int\<close> is the integer promotion of a \<^verbatim>\<open>char\<close>.
\<close>

definition char_to_int :: "bool \<Rightarrow> char \<Rightarrow> int" where
  "char_to_int sg c =
     (if sg \<and> (of_char c :: nat) \<ge> 128 then int (of_char c) - 256 else int (of_char c))"

text \<open>\<^verbatim>\<open>static_cast<unsigned char>(c)\<close> promoted to \<^verbatim>\<open>int\<close>.\<close>

definition uchar_to_int :: "char \<Rightarrow> int" where
  "uchar_to_int c = int (of_char c)"

text \<open>The body of the \<^verbatim>\<open>switch (c)\<close>: what one character appends to \<^verbatim>\<open>ss\<close>. The first
  argument is the value handed to the hexadecimal inserter (the two bridges cast
  differently).\<close>

definition escape_switch :: "(char \<Rightarrow> int) \<Rightarrow> bool \<Rightarrow> char \<Rightarrow> string" where
  "escape_switch cast sg c =
     (if c = CHR 0x22 then [CHR 0x5C, CHR 0x22]
      else if c = CHR 0x5C then [CHR 0x5C, CHR 0x5C]
      else if c = CHR 0x08 then [CHR 0x5C, CHR ''b'']
      else if c = CHR 0x0C then [CHR 0x5C, CHR ''f'']
      else if c = CHR 0x0A then [CHR 0x5C, CHR ''n'']
      else if c = CHR 0x0D then [CHR 0x5C, CHR ''r'']
      else if c = CHR 0x09 then [CHR 0x5C, CHR ''t'']
      else if char_to_int sg (CHR 0x00) \<le> char_to_int sg c \<and> char_to_int sg c \<le> char_to_int sg (CHR 0x1F)
        then [CHR 0x5C, CHR ''u''] @ setw_setfill 4 (CHR ''0'') (hex_int (cast c))
      else [c])"

text \<open>The \<^verbatim>\<open>for (char c : str)\<close> loop, appending to the stream \<^verbatim>\<open>ss\<close>.\<close>

fun escape_loop :: "(char \<Rightarrow> int) \<Rightarrow> bool \<Rightarrow> string \<Rightarrow> string \<Rightarrow> string" where
  "escape_loop cast sg [] ss = ss"
| "escape_loop cast sg (c # str) ss = escape_loop cast sg str (ss @ escape_switch cast sg c)"

text \<open>Android (\<^verbatim>\<open>duckdb_jni.cpp\<close>): the hexadecimal inserter gets \<^verbatim>\<open>static_cast<int>(c)\<close>.\<close>

definition escapeJsonString :: "bool \<Rightarrow> string \<Rightarrow> string" where
  "escapeJsonString sg str = escape_loop (char_to_int sg) sg str [CHR 0x22] @ [CHR 0x22]"

text \<open>iOS (\<^verbatim>\<open>duckdb_ios.cpp\<close>): it gets
  \<^verbatim>\<open>static_cast<int>(static_cast<unsigned char>(c))\<close>.\<close>

definition escapeJsonString_ios :: "bool \<Rightarrow> string \<Rightarrow> string" where
  "escapeJsonString_ios sg str = escape_loop uchar_to_int sg str [CHR 0x22] @ [CHR 0x22]"

section \<open>Reading the text back\<close>

text \<open>
  The decoders a consumer of the payload applies. They follow the JSON grammar
  (RFC 8259) and are used only to state the round-trip properties: a string literal
  is a quote, then characters none of which is a raw quote, a raw backslash or a
  raw control byte, then the closing quote; a backslash introduces one of the eight
  named escapes or \<^verbatim>\<open>\uXXXX\<close>, whose code point is stored in UTF-8.
\<close>

definition hex_val :: "char \<Rightarrow> nat option" where
  "hex_val c =
     (let n = (of_char c :: nat) in
      if 48 \<le> n \<and> n \<le> 57 then Some (n - 48)
      else if 97 \<le> n \<and> n \<le> 102 then Some (n - 87)
      else if 65 \<le> n \<and> n \<le> 70 then Some (n - 55)
      else None)"

definition dec_val :: "char \<Rightarrow> nat option" where
  "dec_val c =
     (let n = (of_char c :: nat) in if 48 \<le> n \<and> n \<le> 57 then Some (n - 48) else None)"

definition named_escape :: "char \<Rightarrow> char option" where
  "named_escape e =
     (if e = CHR 0x22 then Some (CHR 0x22)
      else if e = CHR 0x5C then Some (CHR 0x5C)
      else if e = CHR ''/'' then Some (CHR ''/'')
      else if e = CHR ''b'' then Some (CHR 0x08)
      else if e = CHR ''f'' then Some (CHR 0x0C)
      else if e = CHR ''n'' then Some (CHR 0x0A)
      else if e = CHR ''r'' then Some (CHR 0x0D)
      else if e = CHR ''t'' then Some (CHR 0x09)
      else None)"

text \<open>UTF-8 of a code point below \<open>0x10000\<close>; a surrogate is refused.\<close>

definition utf8_encode :: "nat \<Rightarrow> string option" where
  "utf8_encode n =
     (if n < 0x80 then Some [char_of n]
      else if n < 0x800 then Some [char_of (0xC0 + n div 64), char_of (0x80 + n mod 64)]
      else if 0xD800 \<le> n \<and> n < 0xE000 then None
      else Some [char_of (0xE0 + n div 4096), char_of (0x80 + (n div 64) mod 64),
                 char_of (0x80 + n mod 64)])"

definition hex4 :: "char \<Rightarrow> char \<Rightarrow> char \<Rightarrow> char \<Rightarrow> nat option" where
  "hex4 a b c d =
     (case (hex_val a, hex_val b, hex_val c, hex_val d) of
        (Some x, Some y, Some z, Some w) \<Rightarrow> Some (((x * 16 + y) * 16 + z) * 16 + w)
      | _ \<Rightarrow> None)"

text \<open>The characters after the opening quote, up to the closing quote, which must be
  the last character.\<close>

fun json_unescape :: "string \<Rightarrow> string option" where
  "json_unescape [] = None"
| "json_unescape (c # cs) =
     (if c = CHR 0x22 then (if cs = [] then Some [] else None)
      else if c = CHR 0x5C then
        (case cs of
           [] \<Rightarrow> None
         | e # es \<Rightarrow>
             if e = CHR ''u'' then
               (case es of
                  h1 # h2 # h3 # h4 # rest \<Rightarrow>
                    (case hex4 h1 h2 h3 h4 of
                       None \<Rightarrow> None
                     | Some n \<Rightarrow>
                         (case utf8_encode n of
                            None \<Rightarrow> None
                          | Some bs \<Rightarrow> map_option ((@) bs) (json_unescape rest)))
                | _ \<Rightarrow> None)
             else
               (case named_escape e of
                  None \<Rightarrow> None
                | Some b \<Rightarrow> map_option ((#) b) (json_unescape es)))
      else if (of_char c :: nat) < 0x20 then None
      else map_option ((#) c) (json_unescape cs))"

definition json_decode_string :: "string \<Rightarrow> string option" where
  "json_decode_string s =
     (case s of [] \<Rightarrow> None | q # body \<Rightarrow> if q = CHR 0x22 then json_unescape body else None)"

text \<open>A decimal integer literal: an optional minus sign and at least one digit.\<close>

fun parse_digits :: "nat \<Rightarrow> string \<Rightarrow> nat option" where
  "parse_digits acc [] = Some acc"
| "parse_digits acc (c # cs) =
     (case dec_val c of None \<Rightarrow> None | Some d \<Rightarrow> parse_digits (acc * 10 + d) cs)"

definition parse_nat :: "string \<Rightarrow> nat option" where
  "parse_nat s = (if s = [] then None else parse_digits 0 s)"

definition parse_int :: "string \<Rightarrow> int option" where
  "parse_int s =
     (case s of
        [] \<Rightarrow> None
      | c # cs \<Rightarrow> if c = CHR ''-'' then map_option (\<lambda>n. - int n) (parse_nat cs)
                  else map_option int (parse_nat s))"

section \<open>The engine's result objects\<close>

text \<open>
  The database engine is not part of the repository. The bridge sees a result object
  only through \<^verbatim>\<open>names\<close>, \<^verbatim>\<open>types\<close>, \<^verbatim>\<open>ColumnCount()\<close>, \<^verbatim>\<open>HasError()\<close>,
  \<^verbatim>\<open>GetError()\<close>, and either \<^verbatim>\<open>Fetch()\<close> and \<^verbatim>\<open>DataChunk::GetValue\<close> or
  \<^verbatim>\<open>RowCount()\<close> and \<^verbatim>\<open>GetValue\<close>; it sees a fetched \<^verbatim>\<open>duckdb::Value\<close> only through
  \<^verbatim>\<open>IsNull()\<close>, \<^verbatim>\<open>GetValue<T>()\<close> and \<^verbatim>\<open>ToString()\<close>. A fetched value is therefore
  modelled by what these accessors return.
\<close>

datatype LogicalTypeId =
    BOOLEAN | TINYINT | SMALLINT | INTEGER | BIGINT
  | UTINYINT | USMALLINT | UINTEGER | UBIGINT
  | FLOAT | DOUBLE
  | HUGEINT | UHUGEINT | DECIMAL | VARCHAR | BLOB | DATE | TIME | TIMESTAMP | INTERVAL
  | LIST | STRUCT | MAP | UUID
  | OTHER_TYPE nat

text \<open>\<open>put_float\<close> and \<open>put_double\<close> are the characters that
  \<^verbatim>\<open>json << val.GetValue<float>()\<close> and \<^verbatim>\<open>json << val.GetValue<double>()\<close> write (the
  stream's default floating-point format, which is not modelled).\<close>

record ResultValue =
  IsNull :: bool
  GetValue_bool :: bool
  GetValue_int64 :: "64 word"
  GetValue_uint64 :: "64 word"
  put_float :: string
  put_double :: string
  ToString :: string

text \<open>A block of rows; \<^verbatim>\<open>chunk->size()\<close> is its length.\<close>

type_synonym DataChunk = "ResultValue list list"

text \<open>\<open>chunks\<close> are the blocks of rows the result holds, in the order \<^verbatim>\<open>Fetch()\<close>
  hands them out before it returns \<^verbatim>\<open>nullptr\<close>.\<close>

record QueryResult =
  HasError :: bool
  GetError :: string
  names :: "string list"
  types :: "LogicalTypeId list"
  chunks :: "DataChunk list"

text \<open>The engine defines the column count as the number of column types.\<close>

definition ColumnCount :: "QueryResult \<Rightarrow> nat" where
  "ColumnCount result = length (types result)"

definition RowCount :: "QueryResult \<Rightarrow> nat" where
  "RowCount result = length (concat (chunks result))"

text \<open>An access outside the rows or cells that exist is \<open>None\<close>.\<close>

definition DataChunk_GetValue :: "DataChunk \<Rightarrow> nat \<Rightarrow> nat \<Rightarrow> ResultValue option" where
  "DataChunk_GetValue chunk col row =
     (if row < length chunk \<and> col < length (chunk ! row) then Some (chunk ! row ! col) else None)"

definition GetValue :: "QueryResult \<Rightarrow> nat \<Rightarrow> nat \<Rightarrow> ResultValue option" where
  "GetValue result col row = DataChunk_GetValue (concat (chunks result)) col row"

section \<open>The serializers\<close>

text \<open>The \<^verbatim>\<open>switch (type.id())\<close> of the non-null branch.\<close>

definition type_switch :: "(string \<Rightarrow> string) \<Rightarrow> LogicalTypeId \<Rightarrow> ResultValue \<Rightarrow> string" where
  "type_switch esc type val =
     (case type of
        BOOLEAN \<Rightarrow> (if GetValue_bool val then ''true'' else ''false'')
      | TINYINT \<Rightarrow> put_int64 (GetValue_int64 val)
      | SMALLINT \<Rightarrow> put_int64 (GetValue_int64 val)
      | INTEGER \<Rightarrow> put_int64 (GetValue_int64 val)
      | BIGINT \<Rightarrow> put_int64 (GetValue_int64 val)
      | UTINYINT \<Rightarrow> put_uint64 (GetValue_uint64 val)
      | USMALLINT \<Rightarrow> put_uint64 (GetValue_uint64 val)
      | UINTEGER \<Rightarrow> put_uint64 (GetValue_uint64 val)
      | UBIGINT \<Rightarrow> put_uint64 (GetValue_uint64 val)
      | FLOAT \<Rightarrow> put_float val
      | DOUBLE \<Rightarrow> put_double val
      | _ \<Rightarrow> esc (ToString val))"

text \<open>What one cell appends after its key: \<^verbatim>\<open>if (val.IsNull()) ... else ...\<close>. The
  column type is read only for a non-null value; \<open>None\<close> is a read past the end of
  \<^verbatim>\<open>column_types\<close>.\<close>

definition encode_value :: "(string \<Rightarrow> string) \<Rightarrow> LogicalTypeId list \<Rightarrow> nat \<Rightarrow> ResultValue \<Rightarrow> string option" where
  "encode_value esc column_types col val =
     (if IsNull val then Some ''null''
      else if col < length column_types then Some (type_switch esc (column_types ! col) val)
      else None)"

text \<open>
  The loop \<^verbatim>\<open>for (size_t col = 0; col < column_count; col++)\<close>. Its statements are the
  same in all three serializers but for the object \<^verbatim>\<open>GetValue(col, row)\<close> is called on,
  which is the argument \<open>get\<close>. \<open>json\<close> is the text written so far; \<open>None\<close> is an
  access out of range.
\<close>

function columns_loop ::
  "(string \<Rightarrow> string) \<Rightarrow> string list \<Rightarrow> LogicalTypeId list \<Rightarrow> (nat \<Rightarrow> ResultValue option)
     \<Rightarrow> nat \<Rightarrow> nat \<Rightarrow> string \<Rightarrow> string option" where
  "columns_loop esc column_names column_types get column_count col json =
     (if col < column_count then
        (if col < length column_names then
           (case get col of
              None \<Rightarrow> None
            | Some val \<Rightarrow>
                (case encode_value esc column_types col val of
                   None \<Rightarrow> None
                 | Some text \<Rightarrow>
                     columns_loop esc column_names column_types get column_count (Suc col)
                       (json @ (if col > 0 then '','' else []) @ esc (column_names ! col) @ '':''
                          @ text)))
         else None)
      else Some json)"
  by pat_completeness auto
termination
  by (relation "measure (\<lambda>(esc, column_names, column_types, get, column_count, col, json).
        column_count - col)") auto

declare columns_loop.simps [simp del]

text \<open>Android, \<^verbatim>\<open>resultToJson\<close>: \<^verbatim>\<open>for (size_t row = 0; row < row_count; row++)\<close>.\<close>

function rows_loop :: "(string \<Rightarrow> string) \<Rightarrow> QueryResult \<Rightarrow> nat \<Rightarrow> string \<Rightarrow> string option" where
  "rows_loop esc result row json =
     (if row < RowCount result then
        (case columns_loop esc (names result) (types result) (\<lambda>col. GetValue result col row)
                (ColumnCount result) 0 (json @ (if row > 0 then '','' else []) @ ''{'') of
           None \<Rightarrow> None
         | Some json' \<Rightarrow> rows_loop esc result (Suc row) (json' @ ''}''))
      else Some json)"
  by pat_completeness auto
termination
  by (relation "measure (\<lambda>(esc, result, row, json). RowCount result - row)") auto

declare rows_loop.simps [simp del]

definition resultToJson :: "bool \<Rightarrow> QueryResult \<Rightarrow> string option" where
  "resultToJson sg result =
     map_option (\<lambda>json. json @ '']'') (rows_loop (escapeJsonString sg) result 0 ''['')"

text \<open>The chunked serializers: \<^verbatim>\<open>for (size_t row = 0; row < chunk->size(); row++)\<close>, with
  the flag \<^verbatim>\<open>first_row\<close>, which the loop returns together with the text.\<close>

function chunk_rows_loop ::
  "(string \<Rightarrow> string) \<Rightarrow> string list \<Rightarrow> LogicalTypeId list \<Rightarrow> nat \<Rightarrow> DataChunk
     \<Rightarrow> nat \<Rightarrow> bool \<Rightarrow> string \<Rightarrow> (bool \<times> string) option" where
  "chunk_rows_loop esc column_names column_types column_count chunk row first_row json =
     (if row < length chunk then
        (case columns_loop esc column_names column_types (\<lambda>col. DataChunk_GetValue chunk col row)
                column_count 0 (json @ (if \<not> first_row then '','' else []) @ ''{'') of
           None \<Rightarrow> None
         | Some json' \<Rightarrow>
             chunk_rows_loop esc column_names column_types column_count chunk (Suc row) False
               (json' @ ''}''))
      else Some (first_row, json))"
  by pat_completeness auto
termination
  by (relation "measure (\<lambda>(esc, column_names, column_types, column_count, chunk, row, first_row,
        json). length chunk - row)") auto

declare chunk_rows_loop.simps [simp del]

text \<open>\<^verbatim>\<open>while ((chunk = result->Fetch()) != nullptr && chunk->size() > 0)\<close>: the list
  argument holds the blocks not fetched yet; on the empty list \<^verbatim>\<open>Fetch()\<close> returns
  \<^verbatim>\<open>nullptr\<close>.\<close>

fun fetch_loop ::
  "(string \<Rightarrow> string) \<Rightarrow> string list \<Rightarrow> LogicalTypeId list \<Rightarrow> nat \<Rightarrow> DataChunk list
     \<Rightarrow> bool \<Rightarrow> string \<Rightarrow> string option" where
  "fetch_loop esc column_names column_types column_count [] first_row json = Some json"
| "fetch_loop esc column_names column_types column_count (chunk # pending) first_row json =
     (if length chunk > 0 then
        (case chunk_rows_loop esc column_names column_types column_count chunk 0 first_row json of
           None \<Rightarrow> None
         | Some (first_row', json') \<Rightarrow>
             fetch_loop esc column_names column_types column_count pending first_row' json')
      else Some json)"

text \<open>Android, \<^verbatim>\<open>queryResultToJson\<close>.\<close>

definition queryResultToJson :: "bool \<Rightarrow> QueryResult \<Rightarrow> string option" where
  "queryResultToJson sg result =
     map_option (\<lambda>json. json @ '']'')
       (fetch_loop (escapeJsonString sg) (names result) (types result) (ColumnCount result)
          (chunks result) True ''['')"

text \<open>iOS, \<^verbatim>\<open>resultToJson\<close>: the same statements, with the iOS \<^verbatim>\<open>escapeJsonString\<close>.\<close>

definition resultToJson_ios :: "bool \<Rightarrow> QueryResult \<Rightarrow> string option" where
  "resultToJson_ios sg result =
     map_option (\<lambda>json. json @ '']'')
       (fetch_loop (escapeJsonString_ios sg) (names result) (types result) (ColumnCount result)
          (chunks result) True ''['')"

text \<open>A result object whose name list and rows cover every column.\<close>

definition wf_result :: "QueryResult \<Rightarrow> bool" where
  "wf_result result =
     (ColumnCount result \<le> length (names result) \<and>
      (\<forall>chunk \<in> set (chunks result). \<forall>cells \<in> set chunk. ColumnCount result \<le> length cells))"

text \<open>The text of one row and of a list of rows, used to relate the loops.\<close>

definition cell_get :: "ResultValue list \<Rightarrow> nat \<Rightarrow> ResultValue option" where
  "cell_get cells col = (if col < length cells then Some (cells ! col) else None)"

definition row_text ::
  "(string \<Rightarrow> string) \<Rightarrow> string list \<Rightarrow> LogicalTypeId list \<Rightarrow> nat \<Rightarrow> ResultValue list
     \<Rightarrow> string option" where
  "row_text esc column_names column_types column_count cells =
     columns_loop esc column_names column_types (cell_get cells) column_count 0 []"

fun rows_text ::
  "(string \<Rightarrow> string) \<Rightarrow> string list \<Rightarrow> LogicalTypeId list \<Rightarrow> nat \<Rightarrow> ResultValue list list
     \<Rightarrow> bool \<Rightarrow> string option" where
  "rows_text esc column_names column_types column_count [] first_row = Some []"
| "rows_text esc column_names column_types column_count (cells # rows) first_row =
     (case row_text esc column_names column_types column_count cells of
        None \<Rightarrow> None
      | Some t \<Rightarrow>
          map_option (\<lambda>rest. (if first_row then [] else '','') @ ''{'' @ t @ ''}'' @ rest)
            (rows_text esc column_names column_types column_count rows False))"

section \<open>Handles, wrappers and the binding store\<close>

text \<open>
  A handle is the address of a heap object, passed to the host as a \<^verbatim>\<open>jlong\<close>
  (Android) or a \<^verbatim>\<open>void*\<close> (iOS); 0 is the null handle. The heap is explicit: the
  objects that were created and not yet deleted, by address. Using a non-null address
  that holds no live object is undefined behaviour in C++, and so is a signed
  overflow; both are the outcome \<open>UndefinedBehaviour\<close>.

  A text leaves the bridge as a C string: \<^verbatim>\<open>NewStringUTF(s.c_str())\<close> on Android and
  \<^verbatim>\<open>strcpy\<close> in \<^verbatim>\<open>duplicate_string\<close> on iOS read the bytes of a \<^verbatim>\<open>std::string\<close> up to the
  first NUL byte. A text that comes in (\<^verbatim>\<open>GetStringUTFChars\<close>, a \<^verbatim>\<open>const char*\<close>
  argument) is taken as given, and an absent (null) string is \<open>None\<close>. Allocation is
  assumed to succeed, and logging is not part of the model.
\<close>

type_synonym handle = "64 word"

text \<open>\<^verbatim>\<open>s.c_str()\<close> read as a C string: the bytes before the first NUL byte.\<close>

definition c_str :: "string \<Rightarrow> string" where
  "c_str s = takeWhile (\<lambda>c. c \<noteq> CHR 0x00) s"

text \<open>\<^verbatim>\<open>env->NewStringUTF(p)\<close>: the Java string made of the C string at \<open>p\<close>, identified
  with its bytes.\<close>

definition NewStringUTF :: "string \<Rightarrow> string" where
  "NewStringUTF p = c_str p"

text \<open>iOS, \<^verbatim>\<open>duplicate_string\<close>: \<^verbatim>\<open>strcpy(result, str.c_str())\<close>.\<close>

definition duplicate_string :: "string \<Rightarrow> string" where
  "duplicate_string str = c_str str"

text \<open>The values the bridge constructs for a parameter: \<^verbatim>\<open>Value()\<close>, \<^verbatim>\<open>Value(string)\<close>,
  \<^verbatim>\<open>Value::BIGINT\<close>, \<^verbatim>\<open>Value::DOUBLE\<close> (the double as its 64 bits) and
  \<^verbatim>\<open>Value::BOOLEAN\<close>.\<close>

datatype Value =
    Value_NULL
  | Value_VARCHAR string
  | Value_BIGINT "64 word"
  | Value_DOUBLE "64 word"
  | Value_BOOLEAN bool

text \<open>The engine's prepared statement, as far as the bridge reads it. The entries of
  \<^verbatim>\<open>named_param_map\<close> are listed; its \<^verbatim>\<open>size()\<close> is their number.\<close>

record PreparedStatement =
  stmt_HasError :: bool
  stmt_GetError :: string
  named_param_map :: "(string \<times> nat) list"

text \<open>\<^verbatim>\<open>PreparedStatementWrapper\<close> on Android, \<^verbatim>\<open>PreparedWrapper\<close> on iOS.\<close>

record PreparedStatementWrapper =
  stmt :: PreparedStatement
  bindings :: "Value list"

type_synonym PreparedWrapper = PreparedStatementWrapper

record DatabaseWrapper =
  spatial_loaded :: bool

text \<open>A connection keeps the database it was made from.\<close>

record ConnectionWrapper =
  db_wrapper :: handle

text \<open>What the bridge asks of the engine, in order.\<close>

datatype EngineCall =
    Delete_Database handle
  | New_Connection handle
  | Delete_Connection handle
  | Connection_Query handle string
  | Connection_Prepare handle string
  | Statement_Execute handle "Value list"
  | Delete_Statement handle

record World =
  databases :: "handle \<rightharpoonup> DatabaseWrapper"
  connections :: "handle \<rightharpoonup> ConnectionWrapper"
  statements :: "handle \<rightharpoonup> PreparedStatementWrapper"
  engine_calls :: "EngineCall list"

datatype 'a outcome = Returns 'a World | UndefinedBehaviour

definition engine_call :: "EngineCall \<Rightarrow> World \<Rightarrow> World" where
  "engine_call c w = w\<lparr>engine_calls := engine_calls w @ [c]\<rparr>"

text \<open>\<^verbatim>\<open>std::vector::resize(n)\<close>: new elements are default-constructed, and
  \<^verbatim>\<open>duckdb::Value()\<close> is the null value.\<close>

definition resize :: "Value list \<Rightarrow> nat \<Rightarrow> Value list" where
  "resize v n = (if n \<le> length v then take n v else v @ replicate (n - length v) Value_NULL)"

text \<open>\<^verbatim>\<open>v[i] = x\<close>; \<open>None\<close> is a write past the end.\<close>

definition vector_set :: "Value list \<Rightarrow> nat \<Rightarrow> Value \<Rightarrow> Value list option" where
  "vector_set v i x = (if i < length v then Some (v[i := x]) else None)"

text \<open>\<^verbatim>\<open>int idx = index - 1;\<close> on a 32-bit \<^verbatim>\<open>int\<close>: \<open>None\<close> is the signed overflow (at
  the least \<^verbatim>\<open>int\<close>; with wrapping arithmetic \<^verbatim>\<open>idx\<close> would be 2147483647).\<close>

definition index_minus_1 :: "32 word \<Rightarrow> int option" where
  "index_minus_1 index = (if sint index - 1 < - (2 ^ 31) then None else Some (sint index - 1))"

text \<open>\<^verbatim>\<open>(int)wrapper->bindings.size()\<close>: the low 32 bits, read as signed.\<close>

definition size_to_int :: "nat \<Rightarrow> int" where
  "size_to_int n = (int n + 2 ^ 31) mod 2 ^ 32 - 2 ^ 31"

text \<open>An \<^verbatim>\<open>int\<close> converted to \<^verbatim>\<open>size_t\<close> (64 bits), as in the iOS comparison
  \<^verbatim>\<open>idx >= wrapper->bindings.size()\<close> and in \<^verbatim>\<open>resize(idx + 1)\<close>.\<close>

definition int_to_size :: "int \<Rightarrow> nat" where
  "int_to_size i = nat (i mod 2 ^ 64)"

subsection \<open>Android: the JNI functions\<close>

text \<open>
  The five bind functions repeat the same statements: the null check, the index
  conversion and its guard, the resize, and the assignment of the value. They are
  written once, with the value as an argument.
\<close>

definition jni_bind :: "World \<Rightarrow> handle \<Rightarrow> 32 word \<Rightarrow> Value \<Rightarrow> bool outcome" where
  "jni_bind w stmtPtr index x =
     (if stmtPtr = 0 then Returns False w
      else
        (case index_minus_1 index of
           None \<Rightarrow> UndefinedBehaviour
         | Some idx \<Rightarrow>
             if idx < 0 then Returns False w
             else
               (case statements w stmtPtr of
                  None \<Rightarrow> UndefinedBehaviour
                | Some wrapper \<Rightarrow>
                    let v = (if idx \<ge> size_to_int (length (bindings wrapper))
                             then resize (bindings wrapper) (int_to_size (idx + 1))
                             else bindings wrapper)
                    in (case vector_set v (int_to_size idx) x of
                          None \<Rightarrow> UndefinedBehaviour
                        | Some v' \<Rightarrow>
                            Returns True
                              (w\<lparr>statements := (statements w)(stmtPtr \<mapsto> wrapper\<lparr>bindings := v'\<rparr>)\<rparr>)))))"

definition DuckDBNative_bindString :: "World \<Rightarrow> handle \<Rightarrow> 32 word \<Rightarrow> string option \<Rightarrow> bool outcome" where
  "DuckDBNative_bindString w stmtPtr index val =
     jni_bind w stmtPtr index
       (case val of None \<Rightarrow> Value_NULL | Some strVal \<Rightarrow> Value_VARCHAR strVal)"

definition DuckDBNative_bindLong :: "World \<Rightarrow> handle \<Rightarrow> 32 word \<Rightarrow> 64 word \<Rightarrow> bool outcome" where
  "DuckDBNative_bindLong w stmtPtr index val = jni_bind w stmtPtr index (Value_BIGINT val)"

definition DuckDBNative_bindDouble :: "World \<Rightarrow> handle \<Rightarrow> 32 word \<Rightarrow> 64 word \<Rightarrow> bool outcome" where
  "DuckDBNative_bindDouble w stmtPtr index val = jni_bind w stmtPtr index (Value_DOUBLE val)"

text \<open>A \<^verbatim>\<open>jboolean\<close> is a byte; \<^verbatim>\<open>JNI_TRUE\<close> is 1.\<close>

definition DuckDBNative_bindBoolean :: "World \<Rightarrow> handle \<Rightarrow> 32 word \<Rightarrow> 8 word \<Rightarrow> bool outcome" where
  "DuckDBNative_bindBoolean w stmtPtr index val =
     jni_bind w stmtPtr index (Value_BOOLEAN (val = 1))"

definition DuckDBNative_bindNull :: "World \<Rightarrow> handle \<Rightarrow> 32 word \<Rightarrow> bool outcome" where
  "DuckDBNative_bindNull w stmtPtr index = jni_bind w stmtPtr index Value_NULL"

definition DuckDBNative_clearBindings :: "World \<Rightarrow> handle \<Rightarrow> bool outcome" where
  "DuckDBNative_clearBindings w stmtPtr =
     (if stmtPtr = 0 then Returns False w
      else
        (case statements w stmtPtr of
           None \<Rightarrow> UndefinedBehaviour
         | Some wrapper \<Rightarrow>
             Returns True
               (w\<lparr>statements := (statements w)
                    (stmtPtr \<mapsto> wrapper\<lparr>bindings := map (\<lambda>binding. Value_NULL) (bindings wrapper)\<rparr>)\<rparr>)))"

definition DuckDBNative_closeDatabase :: "World \<Rightarrow> handle \<Rightarrow> unit outcome" where
  "DuckDBNative_closeDatabase w dbPtr =
     (if dbPtr = 0 then Returns () w
      else
        (case databases w dbPtr of
           None \<Rightarrow> UndefinedBehaviour
         | Some wrapper \<Rightarrow>
             Returns () (engine_call (Delete_Database dbPtr) (w\<lparr>databases := (databases w)(dbPtr := None)\<rparr>))))"

text \<open>\<open>reply\<close> is what the engine does when asked: \<open>Inl what\<close> is a thrown
  \<^verbatim>\<open>std::exception\<close>. \<open>p\<close> is the address \<^verbatim>\<open>new\<close> returns.\<close>

definition DuckDBNative_connect :: "World \<Rightarrow> handle \<Rightarrow> string + unit \<Rightarrow> handle \<Rightarrow> handle outcome" where
  "DuckDBNative_connect w dbPtr reply p =
     (if dbPtr = 0 then Returns 0 w
      else
        (case databases w dbPtr of
           None \<Rightarrow> UndefinedBehaviour
         | Some wrapper \<Rightarrow>
             let w' = engine_call (New_Connection dbPtr) w in
             (case reply of
                Inl what \<Rightarrow> Returns 0 w'
              | Inr _ \<Rightarrow> Returns p (w'\<lparr>connections := (connections w')(p \<mapsto> \<lparr>db_wrapper = dbPtr\<rparr>)\<rparr>))))"

definition DuckDBNative_disconnect :: "World \<Rightarrow> handle \<Rightarrow> unit outcome" where
  "DuckDBNative_disconnect w connPtr =
     (if connPtr = 0 then Returns () w
      else
        (case connections w connPtr of
           None \<Rightarrow> UndefinedBehaviour
         | Some conn \<Rightarrow>
             Returns ()
               (engine_call (Delete_Connection connPtr) (w\<lparr>connections := (connections w)(connPtr := None)\<rparr>))))"

definition DuckDBNative_query ::
  "bool \<Rightarrow> World \<Rightarrow> handle \<Rightarrow> string option \<Rightarrow> string + QueryResult \<Rightarrow> string outcome" where
  "DuckDBNative_query sg w connPtr sql reply =
     (if connPtr = 0 then Returns (NewStringUTF ''ERROR:Invalid connection handle'') w
      else
        (case sql of
           None \<Rightarrow> Returns (NewStringUTF ''ERROR:Invalid SQL string'') w
         | Some sqlStr \<Rightarrow>
             (case connections w connPtr of
                None \<Rightarrow> UndefinedBehaviour
              | Some conn \<Rightarrow>
                  let w' = engine_call (Connection_Query connPtr sqlStr) w in
                  (case reply of
                     Inl what \<Rightarrow> Returns (NewStringUTF (c_str (''ERROR:'' @ c_str what))) w'
                   | Inr result \<Rightarrow>
                       if HasError result
                       then Returns (NewStringUTF (c_str (''ERROR:'' @ GetError result))) w'
                       else
                         (case resultToJson sg result of
                            None \<Rightarrow> UndefinedBehaviour
                          | Some jsonResult \<Rightarrow> Returns (NewStringUTF (c_str jsonResult)) w')))))"

text \<open>\<^verbatim>\<open>int64_t rows_changed = result->RowCount();\<close> keeps the low 64 bits.\<close>

definition DuckDBNative_execute ::
  "World \<Rightarrow> handle \<Rightarrow> string option \<Rightarrow> string + QueryResult \<Rightarrow> string outcome" where
  "DuckDBNative_execute w connPtr sql reply =
     (if connPtr = 0 then Returns (NewStringUTF ''ERROR:Invalid connection handle'') w
      else
        (case sql of
           None \<Rightarrow> Returns (NewStringUTF ''ERROR:Invalid SQL string'') w
         | Some sqlStr \<Rightarrow>
             (case connections w connPtr of
                None \<Rightarrow> UndefinedBehaviour
              | Some conn \<Rightarrow>
                  let w' = engine_call (Connection_Query connPtr sqlStr) w in
                  (case reply of
                     Inl what \<Rightarrow> Returns (NewStringUTF (c_str (''ERROR:'' @ c_str what))) w'
                   | Inr result \<Rightarrow>
                       if HasError result
                       then Returns (NewStringUTF (c_str (''ERROR:'' @ GetError result))) w'
                       else
                         Returns
                           (NewStringUTF (c_str
                              ([CHR ''{'', CHR 0x22] @ ''changes'' @ [CHR 0x22, CHR '':'']
                                 @ put_int64 (word_of_nat (RowCount result)) @ ''}'')))
                           w'))))"

definition DuckDBNative_prepare ::
  "World \<Rightarrow> handle \<Rightarrow> string option \<Rightarrow> string + PreparedStatement \<Rightarrow> handle \<Rightarrow> handle outcome" where
  "DuckDBNative_prepare w connPtr sql reply p =
     (if connPtr = 0 then Returns 0 w
      else
        (case sql of
           None \<Rightarrow> Returns 0 w
         | Some sqlStr \<Rightarrow>
             (case connections w connPtr of
                None \<Rightarrow> UndefinedBehaviour
              | Some conn \<Rightarrow>
                  let w' = engine_call (Connection_Prepare connPtr sqlStr) w in
                  (case reply of
                     Inl what \<Rightarrow> Returns 0 w'
                   | Inr s \<Rightarrow>
                       if stmt_HasError s then Returns 0 w'
                       else
                         let n_params = length (named_param_map s);
                             wrapper = \<lparr>stmt = s, bindings = []\<rparr>;
                             wrapper' = wrapper\<lparr>bindings := resize (bindings wrapper) n_params\<rparr>
                         in Returns p (w'\<lparr>statements := (statements w')(p \<mapsto> wrapper')\<rparr>)))))"

definition DuckDBNative_destroyPrepared :: "World \<Rightarrow> handle \<Rightarrow> unit outcome" where
  "DuckDBNative_destroyPrepared w stmtPtr =
     (if stmtPtr = 0 then Returns () w
      else
        (case statements w stmtPtr of
           None \<Rightarrow> UndefinedBehaviour
         | Some wrapper \<Rightarrow>
             Returns ()
               (engine_call (Delete_Statement stmtPtr) (w\<lparr>statements := (statements w)(stmtPtr := None)\<rparr>))))"

definition DuckDBNative_executePrepared ::
  "bool \<Rightarrow> World \<Rightarrow> handle \<Rightarrow> string + QueryResult \<Rightarrow> string outcome" where
  "DuckDBNative_executePrepared sg w stmtPtr reply =
     (if stmtPtr = 0 then Returns (NewStringUTF ''ERROR:Invalid statement handle'') w
      else
        (case statements w stmtPtr of
           None \<Rightarrow> UndefinedBehaviour
         | Some wrapper \<Rightarrow>
             let w' = engine_call (Statement_Execute stmtPtr (bindings wrapper)) w in
             (case reply of
                Inl what \<Rightarrow> Returns (NewStringUTF (c_str (''ERROR:'' @ c_str what))) w'
              | Inr result \<Rightarrow>
                  if HasError result
                       then Returns (NewStringUTF (c_str (''ERROR:'' @ GetError result))) w'
                  else
                    (case queryResultToJson sg result of
                       None \<Rightarrow> UndefinedBehaviour
                     | Some jsonResult \<Rightarrow> Returns (NewStringUTF (c_str jsonResult)) w'))))"

subsection \<open>iOS: the C-linkage functions\<close>

text \<open>
  \<open>error_out\<close> says whether the caller passed a slot for the message; the last
  component of a result is what the call wrote to the slot, \<open>None\<close> when it wrote
  nothing. A returned \<^verbatim>\<open>char*\<close> is \<open>None\<close> for \<^verbatim>\<open>nullptr\<close>.
\<close>

definition set_error_out :: "bool \<Rightarrow> string \<Rightarrow> string option" where
  "set_error_out error_out msg = (if error_out then Some (duplicate_string msg) else None)"

definition ios_bind :: "World \<Rightarrow> handle \<Rightarrow> 32 word \<Rightarrow> Value \<Rightarrow> bool outcome" where
  "ios_bind w s index x =
     (if s = 0 \<or> sint index < 1 then Returns False w
      else
        (case statements w s of
           None \<Rightarrow> UndefinedBehaviour
         | Some wrapper \<Rightarrow>
             let idx = sint index - 1;
                 v = (if int_to_size idx \<ge> length (bindings wrapper)
                      then resize (bindings wrapper) (int_to_size (idx + 1))
                      else bindings wrapper)
             in (case vector_set v (int_to_size idx) x of
                   None \<Rightarrow> UndefinedBehaviour
                 | Some v' \<Rightarrow>
                     Returns True (w\<lparr>statements := (statements w)(s \<mapsto> wrapper\<lparr>bindings := v'\<rparr>)\<rparr>))))"

definition duckdb_ios_bind_string :: "World \<Rightarrow> handle \<Rightarrow> 32 word \<Rightarrow> string option \<Rightarrow> bool outcome" where
  "duckdb_ios_bind_string w s index val =
     ios_bind w s index (case val of Some text \<Rightarrow> Value_VARCHAR text | None \<Rightarrow> Value_NULL)"

definition duckdb_ios_bind_int64 :: "World \<Rightarrow> handle \<Rightarrow> 32 word \<Rightarrow> 64 word \<Rightarrow> bool outcome" where
  "duckdb_ios_bind_int64 w s index val = ios_bind w s index (Value_BIGINT val)"

definition duckdb_ios_bind_double :: "World \<Rightarrow> handle \<Rightarrow> 32 word \<Rightarrow> 64 word \<Rightarrow> bool outcome" where
  "duckdb_ios_bind_double w s index val = ios_bind w s index (Value_DOUBLE val)"

definition duckdb_ios_bind_bool :: "World \<Rightarrow> handle \<Rightarrow> 32 word \<Rightarrow> bool \<Rightarrow> bool outcome" where
  "duckdb_ios_bind_bool w s index val = ios_bind w s index (Value_BOOLEAN val)"

definition duckdb_ios_bind_null :: "World \<Rightarrow> handle \<Rightarrow> 32 word \<Rightarrow> bool outcome" where
  "duckdb_ios_bind_null w s index = ios_bind w s index Value_NULL"

definition duckdb_ios_clear_bindings :: "World \<Rightarrow> handle \<Rightarrow> unit outcome" where
  "duckdb_ios_clear_bindings w s =
     (if s = 0 then Returns () w
      else
        (case statements w s of
           None \<Rightarrow> UndefinedBehaviour
         | Some wrapper \<Rightarrow>
             Returns ()
               (w\<lparr>statements := (statements w)
                    (s \<mapsto> wrapper\<lparr>bindings := map (\<lambda>val. Value_NULL) (bindings wrapper)\<rparr>)\<rparr>)))"

definition duckdb_ios_close_database :: "World \<Rightarrow> handle \<Rightarrow> unit outcome" where
  "duckdb_ios_close_database w db =
     (if db \<noteq> 0 then
        (case databases w db of
           None \<Rightarrow> UndefinedBehaviour
         | Some wrapper \<Rightarrow>
             Returns () (engine_call (Delete_Database db) (w\<lparr>databases := (databases w)(db := None)\<rparr>)))
      else Returns () w)"

definition duckdb_ios_connect ::
  "World \<Rightarrow> handle \<Rightarrow> bool \<Rightarrow> string + unit \<Rightarrow> handle \<Rightarrow> (handle \<times> string option) outcome" where
  "duckdb_ios_connect w db error_out reply p =
     (if db = 0 then Returns (0, set_error_out error_out ''Invalid database handle'') w
      else
        (case databases w db of
           None \<Rightarrow> UndefinedBehaviour
         | Some wrapper \<Rightarrow>
             let w' = engine_call (New_Connection db) w in
             (case reply of
                Inl what \<Rightarrow> Returns (0, set_error_out error_out (c_str what)) w'
              | Inr _ \<Rightarrow>
                  Returns (p, None) (w'\<lparr>connections := (connections w')(p \<mapsto> \<lparr>db_wrapper = db\<rparr>)\<rparr>))))"

definition duckdb_ios_disconnect :: "World \<Rightarrow> handle \<Rightarrow> unit outcome" where
  "duckdb_ios_disconnect w conn =
     (if conn \<noteq> 0 then
        (case connections w conn of
           None \<Rightarrow> UndefinedBehaviour
         | Some wrapper \<Rightarrow>
             Returns ()
               (engine_call (Delete_Connection conn) (w\<lparr>connections := (connections w)(conn := None)\<rparr>)))
      else Returns () w)"

definition duckdb_ios_query ::
  "bool \<Rightarrow> World \<Rightarrow> handle \<Rightarrow> string option \<Rightarrow> bool \<Rightarrow> string + QueryResult
     \<Rightarrow> (string option \<times> string option) outcome" where
  "duckdb_ios_query sg w conn sql error_out reply =
     (if conn = 0 \<or> sql = None then
        Returns (None, set_error_out error_out (if conn \<noteq> 0 then ''Invalid SQL'' else ''Invalid connection'')) w
      else
        (case connections w conn of
           None \<Rightarrow> UndefinedBehaviour
         | Some wrapper \<Rightarrow>
             let w' = engine_call (Connection_Query conn (the sql)) w in
             (case reply of
                Inl what \<Rightarrow> Returns (None, set_error_out error_out (c_str what)) w'
              | Inr result \<Rightarrow>
                  if HasError result then Returns (None, set_error_out error_out (GetError result)) w'
                  else
                    (case resultToJson_ios sg result of
                       None \<Rightarrow> UndefinedBehaviour
                     | Some json \<Rightarrow> Returns (Some (duplicate_string json), None) w'))))"

text \<open>The second component is what is written to \<^verbatim>\<open>*rows_changed_out\<close>, when the caller
  passed that slot.\<close>

definition duckdb_ios_execute ::
  "World \<Rightarrow> handle \<Rightarrow> string option \<Rightarrow> bool \<Rightarrow> bool \<Rightarrow> string + QueryResult
     \<Rightarrow> (bool \<times> 64 word option \<times> string option) outcome" where
  "duckdb_ios_execute w conn sql rows_changed_out error_out reply =
     (if conn = 0 \<or> sql = None then
        Returns (False, None,
                 set_error_out error_out (if conn \<noteq> 0 then ''Invalid SQL'' else ''Invalid connection'')) w
      else
        (case connections w conn of
           None \<Rightarrow> UndefinedBehaviour
         | Some wrapper \<Rightarrow>
             let w' = engine_call (Connection_Query conn (the sql)) w in
             (case reply of
                Inl what \<Rightarrow> Returns (False, None, set_error_out error_out (c_str what)) w'
              | Inr result \<Rightarrow>
                  if HasError result
                  then Returns (False, None, set_error_out error_out (GetError result)) w'
                  else
                    Returns
                      (True,
                       (if rows_changed_out then Some (word_of_nat (RowCount result)) else None),
                       None)
                      w')))"

definition duckdb_ios_prepare ::
  "World \<Rightarrow> handle \<Rightarrow> string option \<Rightarrow> bool \<Rightarrow> string + PreparedStatement \<Rightarrow> handle
     \<Rightarrow> (handle \<times> string option) outcome" where
  "duckdb_ios_prepare w conn sql error_out reply p =
     (if conn = 0 \<or> sql = None then
        Returns (0, set_error_out error_out (if conn \<noteq> 0 then ''Invalid SQL'' else ''Invalid connection'')) w
      else
        (case connections w conn of
           None \<Rightarrow> UndefinedBehaviour
         | Some conn_wrapper \<Rightarrow>
             let w' = engine_call (Connection_Prepare conn (the sql)) w in
             (case reply of
                Inl what \<Rightarrow> Returns (0, set_error_out error_out (c_str what)) w'
              | Inr s \<Rightarrow>
                  if stmt_HasError s then Returns (0, set_error_out error_out (stmt_GetError s)) w'
                  else
                    let prep_wrapper = \<lparr>stmt = s, bindings = []\<rparr>;
                        prep_wrapper' =
                          prep_wrapper\<lparr>bindings :=
                            resize (bindings prep_wrapper)
                              (length (named_param_map (stmt prep_wrapper)))\<rparr>
                    in Returns (p, None) (w'\<lparr>statements := (statements w')(p \<mapsto> prep_wrapper')\<rparr>))))"

definition duckdb_ios_destroy_prepared :: "World \<Rightarrow> handle \<Rightarrow> unit outcome" where
  "duckdb_ios_destroy_prepared w s =
     (if s \<noteq> 0 then
        (case statements w s of
           None \<Rightarrow> UndefinedBehaviour
         | Some wrapper \<Rightarrow>
             Returns () (engine_call (Delete_Statement s) (w\<lparr>statements := (statements w)(s := None)\<rparr>)))
      else Returns () w)"

definition duckdb_ios_execute_prepared ::
  "bool \<Rightarrow> World \<Rightarrow> handle \<Rightarrow> bool \<Rightarrow> string + QueryResult
     \<Rightarrow> (string option \<times> string option) outcome" where
  "duckdb_ios_execute_prepared sg w s error_out reply =
     (if s = 0 then Returns (None, set_error_out error_out ''Invalid statement handle'') w
      else
        (case statements w s of
           None \<Rightarrow> UndefinedBehaviour
         | Some wrapper \<Rightarrow>
             let w' = engine_call (Statement_Execute s (bindings wrapper)) w in
             (case reply of
                Inl what \<Rightarrow> Returns (None, set_error_out error_out (c_str what)) w'
              | Inr result \<Rightarrow>
                  if HasError result then Returns (None, set_error_out error_out (GetError result)) w'
                  else
                    (case resultToJson_ios sg result of
                       None \<Rightarrow> UndefinedBehaviour
                     | Some json \<Rightarrow> Returns (Some (duplicate_string json), None) w'))))"

definition duckdb_ios_has_spatial_extension :: "World \<Rightarrow> handle \<Rightarrow> bool outcome" where
  "duckdb_ios_has_spatial_extension w db =
     (if db = 0 then Returns False w
      else
        (case databases w db of
           None \<Rightarrow> UndefinedBehaviour
         | Some wrapper \<Rightarrow> Returns (spatial_loaded wrapper) w))"

subsection \<open>Sequences of operations on one statement\<close>






text \<open>The size of the binding store behind a handle (0 when there is none).\<close>

definition store_size :: "World \<Rightarrow> handle \<Rightarrow> nat" where
  "store_size w h = (case statements w h of None \<Rightarrow> 0 | Some wrapper \<Rightarrow> length (bindings wrapper))"

section \<open>Definitions used to state the properties\<close>

text \<open>
  The sub-contract of the text-literal encoder, character by character: a named
  two-character escape for the quote, the backslash, backspace, form feed, newline,
  carriage return and tab; \<^verbatim>\<open>\u00XY\<close> with two lower-case hexadecimal digits for every
  other byte below \<open>0x20\<close>; every other byte unchanged.
\<close>

definition spec_escape_char :: "char \<Rightarrow> string" where
  "spec_escape_char c =
     (if c = CHR 0x22 then [CHR 0x5C, CHR 0x22]
      else if c = CHR 0x5C then [CHR 0x5C, CHR 0x5C]
      else if c = CHR 0x08 then [CHR 0x5C, CHR ''b'']
      else if c = CHR 0x0C then [CHR 0x5C, CHR ''f'']
      else if c = CHR 0x0A then [CHR 0x5C, CHR ''n'']
      else if c = CHR 0x0D then [CHR 0x5C, CHR ''r'']
      else if c = CHR 0x09 then [CHR 0x5C, CHR ''t'']
      else if (of_char c :: nat) < 0x20
        then [CHR 0x5C, CHR ''u'', CHR ''0'', CHR ''0'',
              hex_digit (of_char c div 16), hex_digit (of_char c mod 16)]
      else [c])"

text \<open>
  The contract of \<^emph>\<open>bind\<close> on the store: the store \<open>old\<close> grown with null values up to
  the 1-based index \<open>i\<close>, when it is shorter, and the value written at position \<open>i\<close>.
\<close>

definition bind_spec :: "Value list \<Rightarrow> nat \<Rightarrow> Value \<Rightarrow> Value list" where
  "bind_spec old i x = (old @ replicate (i - length old) Value_NULL)[i - 1 := x]"

text \<open>The world in which the wrapper behind \<open>h\<close> holds the bindings \<open>v\<close>.\<close>

definition with_bindings :: "World \<Rightarrow> handle \<Rightarrow> PreparedStatementWrapper \<Rightarrow> Value list \<Rightarrow> World" where
  "with_bindings w h wrapper v = w\<lparr>statements := (statements w)(h \<mapsto> wrapper\<lparr>bindings := v\<rparr>)\<rparr>"


text \<open>From \<open>w\<close> to \<open>w'\<close> the store behind \<open>h\<close> did not shrink and stayed alive.\<close>

definition store_kept :: "World \<Rightarrow> World \<Rightarrow> handle \<Rightarrow> bool" where
  "store_kept w w' h =
     (store_size w h \<le> store_size w' h \<and> (statements w h \<noteq> None \<longrightarrow> statements w' h \<noteq> None))"




text \<open>A text without a NUL byte, and a result object whose floating-point texts hold
  none.\<close>

definition nul_free :: "string \<Rightarrow> bool" where
  "nul_free s = (CHR 0x00 \<notin> set s)"

definition floats_nul_free :: "QueryResult \<Rightarrow> bool" where
  "floats_nul_free result =
     (\<forall>chunk \<in> set (chunks result). \<forall>cells \<in> set chunk. \<forall>val \<in> set cells.
        nul_free (put_float val) \<and> nul_free (put_double val))"

text \<open>The text \<^verbatim>\<open>{"changes":N}\<close> that \<^verbatim>\<open>execute\<close> builds on Android.\<close>

definition changes_json :: "QueryResult \<Rightarrow> string" where
  "changes_json result =
     [CHR ''{'', CHR 0x22] @ ''changes'' @ [CHR 0x22, CHR '':'']
       @ put_int64 (word_of_nat (RowCount result)) @ ''}''"

subsection \<open>Example data\<close>

text \<open>Fetched values: an integer, a text and a null.\<close>

definition int_cell :: "64 word \<Rightarrow> ResultValue" where
  "int_cell v = \<lparr>IsNull = False, GetValue_bool = (v \<noteq> 0), GetValue_int64 = v, GetValue_uint64 = v,
     put_float = [], put_double = [], ToString = put_int64 v\<rparr>"

definition text_cell :: "string \<Rightarrow> ResultValue" where
  "text_cell s = \<lparr>IsNull = False, GetValue_bool = False, GetValue_int64 = 0, GetValue_uint64 = 0,
     put_float = [], put_double = [], ToString = s\<rparr>"

definition null_cell :: ResultValue where
  "null_cell = \<lparr>IsNull = True, GetValue_bool = False, GetValue_int64 = 0, GetValue_uint64 = 0,
     put_float = [], put_double = [], ToString = ''NULL''\<rparr>"

text \<open>The rows of \<^verbatim>\<open>SELECT a, b FROM t ORDER BY a\<close> after
  \<^verbatim>\<open>INSERT INTO t VALUES (1,'x'),(2,NULL)\<close>, held in two blocks.\<close>

definition example_result :: QueryResult where
  "example_result = \<lparr>HasError = False, GetError = [], names = [''a'', ''b''],
     types = [INTEGER, VARCHAR],
     chunks = [[[int_cell 1, text_cell ''x'']], [[int_cell 2, null_cell]]]\<rparr>"

text \<open>A result object that carries an error (and, to make the point, rows).\<close>

definition failed_result :: QueryResult where
  "failed_result = example_result\<lparr>HasError := True, GetError := ''Parser Error: syntax error''\<rparr>"

text \<open>A result object whose error message holds a NUL byte.\<close>

definition nul_error_result :: QueryResult where
  "nul_error_result = example_result\<lparr>HasError := True, GetError := ''bad'' @ [CHR 0x00] @ ''value''\<rparr>"

text \<open>A value whose unsigned reading is the greatest \<^verbatim>\<open>uint64_t\<close> and whose signed
  reading is the least \<^verbatim>\<open>int64_t\<close>.\<close>

definition max_cell :: ResultValue where
  "max_cell = \<lparr>IsNull = False, GetValue_bool = True, GetValue_int64 = - 9223372036854775808,
     GetValue_uint64 = 18446744073709551615, put_float = [], put_double = [], ToString = []\<rparr>"

text \<open>A statement with two parameters, and a world with one database, one connection
  and one prepared statement whose store is still empty.\<close>

definition example_stmt :: PreparedStatement where
  "example_stmt = \<lparr>stmt_HasError = False, stmt_GetError = [], named_param_map = [(''1'', 0), (''2'', 1)]\<rparr>"

definition example_wrapper :: PreparedStatementWrapper where
  "example_wrapper = \<lparr>stmt = example_stmt, bindings = []\<rparr>"

definition example_world :: World where
  "example_world =
     \<lparr>databases = [1 \<mapsto> \<lparr>spatial_loaded = True\<rparr>],
      connections = [2 \<mapsto> \<lparr>db_wrapper = 1\<rparr>],
      statements = [3 \<mapsto> example_wrapper],
      engine_calls = []\<rparr>"




section \<open>The stream inserters\<close>

subsection \<open>Hexadecimal, width 4, filled with zeros\<close>

lemma replicate_3: "replicate 3 x = [x, x, x]"
  by (simp add: numeral_3_eq_3)

lemma replicate_2: "replicate 2 x = [x, x]"
  by (simp add: numeral_2_eq_2)

lemma hex_digit_0: "hex_digit 0 = CHR ''0''"
  by (simp add: hex_digit_def)

lemma to_hex_one: "n < 16 \<Longrightarrow> to_hex n = [hex_digit n]"
  by (subst to_hex.simps) simp

lemma to_hex_two: "16 \<le> n \<Longrightarrow> n < 256 \<Longrightarrow> to_hex n = [hex_digit (n div 16), hex_digit (n mod 16)]"
  by (subst to_hex.simps) (simp add: to_hex_one)

lemma to_hex_padded:
  assumes "n < 256"
  shows "setw_setfill 4 (CHR ''0'') (to_hex n) = [CHR ''0'', CHR ''0'', hex_digit (n div 16), hex_digit (n mod 16)]"
proof (cases "n < 16")
  case True
  then show ?thesis
    by (simp add: to_hex_one setw_setfill_def replicate_3 hex_digit_0)
next
  case False
  with assms show ?thesis
    by (simp add: to_hex_two setw_setfill_def replicate_2)
qed

lemma hex_int_of_nat: "n < 256 \<Longrightarrow> hex_int (int n) = to_hex n"
proof -
  assume "n < 256"
  then have "int n mod 2 ^ 32 = int n" by simp
  then show ?thesis by (simp add: hex_int_def)
qed

lemma hex_val_hex_digit: "d < 16 \<Longrightarrow> hex_val (hex_digit d) = Some d"
proof -
  assume "d < 16"
  then have "d = 0 \<or> d = 1 \<or> d = 2 \<or> d = 3 \<or> d = 4 \<or> d = 5 \<or> d = 6 \<or> d = 7 \<or> d = 8
      \<or> d = 9 \<or> d = 10 \<or> d = 11 \<or> d = 12 \<or> d = 13 \<or> d = 14 \<or> d = 15"
    by arith
  then show ?thesis
    by (elim disjE) (simp_all add: hex_val_def hex_digit_def)
qed

lemma hex4_control:
  assumes "n < 0x20"
  shows "hex4 (CHR ''0'') (CHR ''0'') (hex_digit (n div 16)) (hex_digit (n mod 16)) = Some n"
proof -
  have z: "hex_val (CHR ''0'') = Some 0" by (simp add: hex_val_def)
  have a: "hex_val (hex_digit (n div 16)) = Some (n div 16)"
    using assms by (intro hex_val_hex_digit) simp
  have b: "hex_val (hex_digit (n mod 16)) = Some (n mod 16)"
    by (intro hex_val_hex_digit) simp
  show ?thesis by (simp add: hex4_def z a b)
qed

subsection \<open>Decimal\<close>

lemma dec_cases:
  "d < 10 \<Longrightarrow> d = 0 \<or> d = 1 \<or> d = 2 \<or> d = 3 \<or> d = 4 \<or> d = 5 \<or> d = 6 \<or> d = 7 \<or> d = 8 \<or> d = (9::nat)"
  by arith

lemma dec_val_dec_digit: "d < 10 \<Longrightarrow> dec_val (dec_digit d) = Some d"
  by (drule dec_cases, elim disjE) (simp_all add: dec_val_def dec_digit_def)

lemma dec_digit_in_digits: "d < 10 \<Longrightarrow> dec_digit d \<in> set ''0123456789''"
  by (drule dec_cases, elim disjE) (simp_all add: dec_digit_def)

lemma dec_digit_eq_zero: "d < 10 \<Longrightarrow> dec_digit d = CHR ''0'' \<Longrightarrow> d = 0"
  by (drule dec_cases, elim disjE) (simp_all add: dec_digit_def)

lemma parse_digits_snoc:
  "parse_digits acc (xs @ [c]) =
     (case parse_digits acc xs of
        None \<Rightarrow> None
      | Some a \<Rightarrow> (case dec_val c of None \<Rightarrow> None | Some d \<Rightarrow> Some (a * 10 + d)))"
  by (induction xs arbitrary: acc) (simp_all split: option.splits)

lemma to_dec_nonempty: "to_dec n \<noteq> []"
  by (subst to_dec.simps) simp

lemma parse_digits_to_dec: "parse_digits 0 (to_dec n) = Some n"
proof (induction n rule: to_dec.induct)
  case (1 n)
  show ?case
  proof (cases "n < 10")
    case True
    then show ?thesis
      by (subst to_dec.simps) (simp add: dec_val_dec_digit)
  next
    case False
    then have "parse_digits 0 (to_dec (n div 10)) = Some (n div 10)"
      using "1.IH" by simp
    with False show ?thesis
      by (subst to_dec.simps) (simp add: parse_digits_snoc dec_val_dec_digit)
  qed
qed

lemma parse_nat_to_dec: "parse_nat (to_dec n) = Some n"
  by (simp add: parse_nat_def to_dec_nonempty parse_digits_to_dec)

lemma to_dec_digits: "set (to_dec n) \<subseteq> set ''0123456789''"
proof (induction n rule: to_dec.induct)
  case (1 n)
  show ?case
  proof (cases "n < 10")
    case True
    then show ?thesis
      using dec_digit_in_digits [of n] by (subst to_dec.simps) simp
  next
    case False
    then have "set (to_dec (n div 10)) \<subseteq> set ''0123456789''"
      using "1.IH" by simp
    moreover have "dec_digit (n mod 10) \<in> set ''0123456789''"
      by (rule dec_digit_in_digits) simp
    ultimately show ?thesis
      using False by (subst to_dec.simps) simp
  qed
qed

lemma to_dec_no_leading_zero: "0 < n \<Longrightarrow> hd (to_dec n) \<noteq> CHR ''0''"
proof (induction n rule: to_dec.induct)
  case (1 n)
  show ?case
  proof (cases "n < 10")
    case True
    with "1.prems" show ?thesis
      using dec_digit_eq_zero [of n] by (subst to_dec.simps) auto
  next
    case False
    then have "hd (to_dec (n div 10)) \<noteq> CHR ''0''"
      using "1.IH" by simp
    with False show ?thesis
      by (subst to_dec.simps) (simp add: to_dec_nonempty)
  qed
qed

lemma to_dec_hd_not_minus: "hd (to_dec n) \<noteq> CHR ''-''"
proof -
  have "hd (to_dec n) \<in> set (to_dec n)"
    by (simp add: to_dec_nonempty)
  then have "hd (to_dec n) \<in> set ''0123456789''"
    using to_dec_digits by blast
  then show ?thesis by auto
qed

lemma parse_int_to_dec: "parse_int (to_dec n) = Some (int n)"
proof (cases "to_dec n")
  case Nil
  then show ?thesis by (simp add: to_dec_nonempty)
next
  case (Cons c cs)
  then have "c \<noteq> CHR ''-''"
    using to_dec_hd_not_minus [of n] by simp
  then show ?thesis
    using Cons parse_nat_to_dec [of n] by (simp add: parse_int_def)
qed

lemma parse_int_put_int64: "parse_int (put_int64 v) = Some (sint v)"
proof (cases "sint v < 0")
  case True
  then show ?thesis
    by (simp add: put_int64_def parse_int_def parse_nat_to_dec)
next
  case False
  then have "put_int64 v = to_dec (nat (sint v))"
    by (simp add: put_int64_def)
  with False show ?thesis
    by (simp add: parse_int_to_dec)
qed

lemma parse_nat_put_uint64: "parse_nat (put_uint64 v) = Some (unat v)"
  by (simp add: put_uint64_def parse_nat_to_dec)

lemma to_dec_max: "to_dec 18446744073709551615 = ''18446744073709551615''"
  by (simp add: to_dec.simps dec_digit_def)

lemma to_dec_min: "to_dec 9223372036854775808 = ''9223372036854775808''"
  by (simp add: to_dec.simps dec_digit_def)

lemma put_int64_min: "put_int64 (-9223372036854775808) = ''-9223372036854775808''"
  by (simp add: put_int64_def to_dec.simps dec_digit_def)

section \<open>C strings\<close>

text \<open>Reading a text as a C string keeps what precedes the first NUL byte: all of it
  when there is none.\<close>

lemma c_str_nul_free: "CHR 0x00 \<notin> set s \<Longrightarrow> c_str s = s"
  by (auto simp: c_str_def takeWhile_eq_all_conv)

lemma c_str_Nil [simp]: "c_str [] = []"
  by (simp add: c_str_def)

lemma c_str_Cons [simp]: "c \<noteq> CHR 0x00 \<Longrightarrow> c_str (c # s) = c # c_str s"
  by (simp add: c_str_def)

lemma c_str_nul [simp]: "c_str (CHR 0x00 # s) = []"
  by (simp add: c_str_def)

lemma c_str_idem [simp]: "c_str (c_str s) = c_str s"
  by (simp add: c_str_def)

lemma c_str_ERROR: "c_str (''ERROR:'' @ s) = ''ERROR:'' @ c_str s"
  by (simp add: c_str_def)

lemma c_str_no_nul: "CHR 0x00 \<notin> set (c_str s)"
  by (auto simp: c_str_def dest: set_takeWhileD)

lemma c_str_prefix_of: "c_str (a @ CHR 0x00 # b) = c_str a"
  by (induction a) (simp_all add: c_str_def)

lemma nul_free_simps [simp]:
  "nul_free []"
  "nul_free (c # s) = (c \<noteq> CHR 0x00 \<and> nul_free s)"
  "nul_free (a @ b) = (nul_free a \<and> nul_free b)"
  by (auto simp: nul_free_def)

lemma c_str_nul_free_id: "nul_free s \<Longrightarrow> c_str s = s"
  by (simp add: nul_free_def c_str_nul_free)

section \<open>The text-literal encoder\<close>

text \<open>The loop appends the text of each character in turn.\<close>

lemma escape_loop_concat:
  "escape_loop cast sg str ss = ss @ concat (map (escape_switch cast sg) str)"
  by (induction str arbitrary: ss) simp_all

text \<open>Whatever the signedness of \<^verbatim>\<open>char\<close>, the test \<^verbatim>\<open>'\x00' <= c && c <= '\x1f'\<close>
  holds exactly for the bytes below \<open>0x20\<close>: a byte from \<open>0x80\<close> on is negative when
  \<^verbatim>\<open>char\<close> is signed and greater than \<open>0x1f\<close> when it is not.\<close>

lemma char_to_int_control:
  "(char_to_int sg (CHR 0x00) \<le> char_to_int sg c \<and> char_to_int sg c \<le> char_to_int sg (CHR 0x1F))
     = ((of_char c :: nat) < 0x20)"
proof -
  have aux: "\<And>n::nat. n < 256 \<Longrightarrow>
      (0 \<le> (if sg \<and> n \<ge> 128 then int n - 256 else int n)
        \<and> (if sg \<and> n \<ge> 128 then int n - 256 else int n) \<le> 31) = (n < 32)"
    by auto
  have "char_to_int sg (CHR 0x00) = 0" "char_to_int sg (CHR 0x1F) = 31"
    by (simp_all add: char_to_int_def)
  then show ?thesis
    using aux [OF nat_of_char_less_256, of c] by (simp add: char_to_int_def del: of_char_Char)
qed

lemma hex_int_char:
  "(of_char c :: nat) < 0x20 \<Longrightarrow> hex_int (char_to_int sg c) = to_hex (of_char c)"
  "hex_int (uchar_to_int c) = to_hex (of_char c)"
  using nat_of_char_less_256 [of c]
  by (simp_all add: hex_int_of_nat char_to_int_def uchar_to_int_def)

text \<open>Both bridges implement the sub-contract; their different casts give the same
  digits.\<close>

lemma escape_switch_spec:
  "escape_switch (char_to_int sg) sg = spec_escape_char"
  "escape_switch uchar_to_int sg = spec_escape_char"
  by (rule ext, simp add: escape_switch_def spec_escape_char_def char_to_int_control hex_int_char
        to_hex_padded del: of_char_Char)+

lemma escapeJsonString_ios_eq: "escapeJsonString_ios sg = escapeJsonString sg"
  by (rule ext)
    (simp add: escapeJsonString_def escapeJsonString_ios_def escape_loop_concat escape_switch_spec)

text \<open>The example of the specification, followed by a control byte, a byte above
  \<open>0x7F\<close> and a solidus.\<close>

lemma escapeJsonString_example:
  "escapeJsonString True
     (''line1'' @ [CHR 0x0A] @ ''line2'' @ [CHR 0x09] @ ''tab'' @ [CHR 0x22] @ ''quote''
        @ [CHR 0x01, CHR 0x9F, CHR ''/''])
   = [CHR 0x22] @ ''line1'' @ [CHR 0x5C] @ ''nline2'' @ [CHR 0x5C] @ ''ttab'' @ [CHR 0x5C, CHR 0x22]
       @ ''quote'' @ [CHR 0x5C] @ ''u0001'' @ [CHR 0x9F, CHR ''/'', CHR 0x22]"
  "escapeJsonString_ios False
     (''line1'' @ [CHR 0x0A] @ ''line2'' @ [CHR 0x09] @ ''tab'' @ [CHR 0x22] @ ''quote''
        @ [CHR 0x01, CHR 0x9F, CHR ''/''])
   = [CHR 0x22] @ ''line1'' @ [CHR 0x5C] @ ''nline2'' @ [CHR 0x5C] @ ''ttab'' @ [CHR 0x5C, CHR 0x22]
       @ ''quote'' @ [CHR 0x5C] @ ''u0001'' @ [CHR 0x9F, CHR ''/'', CHR 0x22]"
  by code_simp+

text \<open>Decoding undoes the encoding of one character, then of all.\<close>

lemma utf8_encode_ascii: "(of_char c :: nat) < 0x80 \<Longrightarrow> utf8_encode (of_char c) = Some [c]"
  by (simp add: utf8_encode_def del: of_char_Char)

lemma map_option_append_single: "map_option ((@) [c]) x = map_option ((#) c) x"
  by (cases x) simp_all

lemma json_unescape_escape_char:
  "json_unescape (spec_escape_char c @ rest) = map_option ((#) c) (json_unescape rest)"
proof -
  consider (named) "c \<in> {CHR 0x22, CHR 0x5C, CHR 0x08, CHR 0x0C, CHR 0x0A, CHR 0x0D, CHR 0x09}"
    | (control) "c \<notin> {CHR 0x22, CHR 0x5C, CHR 0x08, CHR 0x0C, CHR 0x0A, CHR 0x0D, CHR 0x09}"
        "(of_char c :: nat) < 0x20"
    | (plain) "c \<notin> {CHR 0x22, CHR 0x5C, CHR 0x08, CHR 0x0C, CHR 0x0A, CHR 0x0D, CHR 0x09}"
        "\<not> (of_char c :: nat) < 0x20"
    by blast
  then show ?thesis
  proof cases
    case named
    then show ?thesis
      by (auto simp: spec_escape_char_def named_escape_def)
  next
    case control
    then have "spec_escape_char c = [CHR 0x5C, CHR ''u'', CHR ''0'', CHR ''0'',
              hex_digit (of_char c div 16), hex_digit (of_char c mod 16)]"
      by (simp add: spec_escape_char_def del: of_char_Char)
    moreover have "utf8_encode (of_char c) = Some [c]"
      using control by (intro utf8_encode_ascii) simp
    ultimately show ?thesis
      using control by (simp add: hex4_control map_option_append_single)
  next
    case plain
    then have "spec_escape_char c = [c]"
      by (simp add: spec_escape_char_def del: of_char_Char)
    then show ?thesis
      using plain by simp
  qed
qed

lemma json_unescape_concat:
  "json_unescape (concat (map spec_escape_char str) @ [CHR 0x22]) = Some str"
  by (induction str) (simp_all add: json_unescape_escape_char del: json_unescape.simps(2), simp)

text \<open>
  \<^bold>\<open>Claim C3.\<close> For every byte string, \<^verbatim>\<open>escapeJsonString\<close> returns a quote, the escaped
  characters and a quote, where the quote, the backslash, backspace, form feed,
  newline, carriage return and tab get their named two-character escape, every other
  byte in \<open>0x00\<close>--\<open>0x1F\<close> gets a \<^verbatim>\<open>\u\<close> escape of four hexadecimal digits, and every
  other byte (those from \<open>0x80\<close> on included) is passed through; the iOS and the
  Android encoder return the same text, for either signedness of \<^verbatim>\<open>char\<close>; and
  decoding the literal as a JSON string gives back the original bytes.
\<close>

theorem escapeJsonString_roundtrip:
  "escapeJsonString sg str = CHR 0x22 # concat (map spec_escape_char str) @ [CHR 0x22]
   \<and> escapeJsonString_ios sg str = escapeJsonString sg str
   \<and> json_decode_string (escapeJsonString sg str) = Some str"
proof -
  have a: "escapeJsonString sg str = CHR 0x22 # concat (map spec_escape_char str) @ [CHR 0x22]"
    by (simp add: escapeJsonString_def escape_loop_concat escape_switch_spec)
  have b: "escapeJsonString_ios sg str = CHR 0x22 # concat (map spec_escape_char str) @ [CHR 0x22]"
    by (simp add: escapeJsonString_ios_def escape_loop_concat escape_switch_spec)
  have c: "json_decode_string (CHR 0x22 # concat (map spec_escape_char str) @ [CHR 0x22]) = Some str"
    by (simp add: json_decode_string_def json_unescape_concat)
  from a b c show ?thesis by simp
qed

section \<open>The value encoder on integers\<close>

lemma encode_value_unsigned:
  assumes "\<not> IsNull val" and "col < length column_types"
    and "column_types ! col \<in> {UTINYINT, USMALLINT, UINTEGER, UBIGINT}"
  shows "encode_value esc column_types col val = Some (put_uint64 (GetValue_uint64 val))"
  using assms by (auto simp: encode_value_def type_switch_def)

lemma encode_value_signed:
  assumes "\<not> IsNull val" and "col < length column_types"
    and "column_types ! col \<in> {TINYINT, SMALLINT, INTEGER, BIGINT}"
  shows "encode_value esc column_types col val = Some (put_int64 (GetValue_int64 val))"
  using assms by (auto simp: encode_value_def type_switch_def)

text \<open>
  \<^bold>\<open>Claim C7.\<close> A non-null value in a column of an unsigned integer category (8, 16, 32
  or 64 bits) is rendered as the decimal digits of \<^verbatim>\<open>GetValue<uint64_t>()\<close>, its value
  widened to 64 bits unsigned: digits only, and parsing them gives the value back,
  over the whole range. A non-null value in a column of a signed integer category is
  rendered as the decimal literal of \<^verbatim>\<open>GetValue<int64_t>()\<close>, with a minus sign when
  negative, and parsing it gives the signed value back.
\<close>

theorem integer_literals_exact:
  assumes "\<not> IsNull val" and "col < length column_types"
  shows "(column_types ! col \<in> {UTINYINT, USMALLINT, UINTEGER, UBIGINT} \<longrightarrow>
            encode_value esc column_types col val = Some (to_dec (unat (GetValue_uint64 val)))
          \<and> Option.bind (encode_value esc column_types col val) parse_nat
              = Some (unat (GetValue_uint64 val))
          \<and> set (to_dec (unat (GetValue_uint64 val))) \<subseteq> set ''0123456789'')
       \<and> (column_types ! col \<in> {TINYINT, SMALLINT, INTEGER, BIGINT} \<longrightarrow>
            encode_value esc column_types col val =
              Some (if sint (GetValue_int64 val) < 0
                    then CHR ''-'' # to_dec (nat (- sint (GetValue_int64 val)))
                    else to_dec (nat (sint (GetValue_int64 val))))
          \<and> Option.bind (encode_value esc column_types col val) parse_int
              = Some (sint (GetValue_int64 val)))"
proof (intro conjI impI)
  assume u: "column_types ! col \<in> {UTINYINT, USMALLINT, UINTEGER, UBIGINT}"
  show a: "encode_value esc column_types col val = Some (to_dec (unat (GetValue_uint64 val)))"
    using encode_value_unsigned [OF assms u] by (simp add: put_uint64_def)
  show "Option.bind (encode_value esc column_types col val) parse_nat
              = Some (unat (GetValue_uint64 val))"
    by (simp add: a parse_nat_to_dec)
  show "set (to_dec (unat (GetValue_uint64 val))) \<subseteq> set ''0123456789''"
    by (rule to_dec_digits)
next
  assume s: "column_types ! col \<in> {TINYINT, SMALLINT, INTEGER, BIGINT}"
  have e: "encode_value esc column_types col val = Some (put_int64 (GetValue_int64 val))"
    by (rule encode_value_signed [OF assms s])
  then show "encode_value esc column_types col val =
              Some (if sint (GetValue_int64 val) < 0
                    then CHR ''-'' # to_dec (nat (- sint (GetValue_int64 val)))
                    else to_dec (nat (sint (GetValue_int64 val))))"
    by (simp add: put_int64_def)
  show "Option.bind (encode_value esc column_types col val) parse_int
              = Some (sint (GetValue_int64 val))"
    by (simp add: e parse_int_put_int64)
qed

text \<open>At the ends of the range: 18446744073709551615 and -9223372036854775808 are
  rendered as exactly these literals.\<close>

theorem integer_literals_exact_witness:
  "\<not> IsNull max_cell \<and> (0 :: nat) < length [UBIGINT, BIGINT] \<and> (1 :: nat) < length [UBIGINT, BIGINT]
   \<and> [UBIGINT, BIGINT] ! 0 \<in> {UTINYINT, USMALLINT, UINTEGER, UBIGINT}
   \<and> [UBIGINT, BIGINT] ! 1 \<in> {TINYINT, SMALLINT, INTEGER, BIGINT}
   \<and> encode_value (escapeJsonString True) [UBIGINT, BIGINT] 0 max_cell = Some ''18446744073709551615''
   \<and> encode_value (escapeJsonString True) [UBIGINT, BIGINT] 1 max_cell = Some ''-9223372036854775808''"
proof -
  have h: "\<not> IsNull max_cell" "(0 :: nat) < length [UBIGINT, BIGINT]"
    "(1 :: nat) < length [UBIGINT, BIGINT]"
    by (simp_all add: max_cell_def)
  have t: "[UBIGINT, BIGINT] ! 0 \<in> {UTINYINT, USMALLINT, UINTEGER, UBIGINT}"
    "[UBIGINT, BIGINT] ! 1 \<in> {TINYINT, SMALLINT, INTEGER, BIGINT}"
    by simp_all
  have v: "unat (GetValue_uint64 max_cell) = 18446744073709551615"
    "sint (GetValue_int64 max_cell) = - 9223372036854775808"
    by (simp_all add: max_cell_def)
  have a: "encode_value (escapeJsonString True) [UBIGINT, BIGINT] 0 max_cell = Some ''18446744073709551615''"
    using integer_literals_exact [OF h(1,2), of "escapeJsonString True"] t(1)
    by (simp add: v to_dec_max)
  have b: "encode_value (escapeJsonString True) [UBIGINT, BIGINT] 1 max_cell = Some ''-9223372036854775808''"
    using integer_literals_exact [OF h(1,3), of "escapeJsonString True"] t(2)
    by (simp add: v to_dec_min)
  from h t a b show ?thesis by (intro conjI)
qed

section \<open>The result serializers\<close>

text \<open>The column loop only appends to the text it is given.\<close>

lemma columns_loop_acc:
  "columns_loop esc ns ts get cc col (a @ b) = map_option ((@) a) (columns_loop esc ns ts get cc col b)"
proof (induction "cc - col" arbitrary: col b)
  case 0
  then have "\<not> col < cc" by simp
  then show ?case
    by (simp add: columns_loop.simps [of _ _ _ _ cc col])
next
  case (Suc n)
  then have lt: "col < cc" and n: "n = cc - Suc col" by simp_all
  have step: "\<And>j. columns_loop esc ns ts get cc col j =
      (if col < length ns then
         (case get col of None \<Rightarrow> None
          | Some val \<Rightarrow>
              (case encode_value esc ts col val of None \<Rightarrow> None
               | Some text \<Rightarrow>
                   columns_loop esc ns ts get cc (Suc col)
                     (j @ (if col > 0 then '','' else []) @ esc (ns ! col) @ '':'' @ text)))
       else None)"
    using lt by (subst columns_loop.simps) simp
  show ?case
  proof (cases "col < length ns")
    case False
    then show ?thesis by (simp add: step)
  next
    case True
    show ?thesis
    proof (cases "get col")
      case None
      with True show ?thesis by (simp add: step)
    next
      case (Some val)
      show ?thesis
      proof (cases "encode_value esc ts col val")
        case None
        with True Some show ?thesis by (simp add: step)
      next
        case (Some enc)
        with True \<open>get col = Some val\<close> show ?thesis
          using Suc.hyps(1) [OF n, of "b @ (if col > 0 then '','' else []) @ esc (ns ! col) @ '':'' @ enc"]
          by (simp add: step)
      qed
    qed
  qed
qed

lemma map_option_append_Nil: "map_option ((@) []) x = x"
  by (cases x) simp_all

lemma columns_loop_from_empty:
  "columns_loop esc ns ts get cc col json = map_option ((@) json) (columns_loop esc ns ts get cc col [])"
  using columns_loop_acc [of esc ns ts get cc col json "[]"] by simp

lemma GetValue_row:
  "row < RowCount result \<Longrightarrow> (\<lambda>col. GetValue result col row) = cell_get (concat (chunks result) ! row)"
  by (rule ext) (simp add: GetValue_def DataChunk_GetValue_def cell_get_def RowCount_def)

lemma DataChunk_GetValue_row:
  "row < length chunk \<Longrightarrow> (\<lambda>col. DataChunk_GetValue chunk col row) = cell_get (chunk ! row)"
  by (rule ext) (simp add: DataChunk_GetValue_def cell_get_def)

text \<open>The materialized loop, from row \<open>row\<close> on, writes the remaining rows.\<close>

lemma rows_loop_text:
  "row \<le> RowCount result \<Longrightarrow>
   rows_loop esc result row json =
     map_option ((@) json)
       (rows_text esc (names result) (types result) (ColumnCount result)
          (drop row (concat (chunks result))) (row = 0))"
proof (induction "RowCount result - row" arbitrary: row json)
  case 0
  then have "row = RowCount result" by simp
  then show ?case
    by (subst rows_loop.simps) (simp add: RowCount_def)
next
  case (Suc n)
  then have lt: "row < RowCount result" and n: "n = RowCount result - Suc row"
    and le: "Suc row \<le> RowCount result" by simp_all
  let ?rows = "concat (chunks result)"
  have d: "drop row ?rows = (?rows ! row) # drop (Suc row) ?rows"
    using lt by (simp add: RowCount_def Cons_nth_drop_Suc)
  have c: "columns_loop esc (names result) (types result) (\<lambda>col. GetValue result col row)
             (ColumnCount result) 0 (json @ (if row > 0 then '','' else []) @ ''{'')
           = map_option ((@) (json @ (if row > 0 then '','' else []) @ ''{''))
               (row_text esc (names result) (types result) (ColumnCount result) (?rows ! row))"
    unfolding row_text_def GetValue_row [OF lt] by (rule columns_loop_from_empty)
  show ?case
  proof (cases "row_text esc (names result) (types result) (ColumnCount result) (?rows ! row)")
    case None
    then show ?thesis
      using lt by (subst rows_loop.simps) (simp add: c d)
  next
    case (Some t)
    have "rows_loop esc result row json
          = rows_loop esc result (Suc row) ((json @ (if row > 0 then '','' else []) @ ''{'' @ t) @ ''}'')"
      using lt Some by (subst rows_loop.simps) (simp add: c)
    also have "\<dots> = map_option ((@) ((json @ (if row > 0 then '','' else []) @ ''{'' @ t) @ ''}''))
         (rows_text esc (names result) (types result) (ColumnCount result) (drop (Suc row) ?rows) False)"
      using Suc.hyps(1) [OF n le] by simp
    also have "\<dots> = map_option ((@) json)
         (rows_text esc (names result) (types result) (ColumnCount result) (drop row ?rows) (row = 0))"
      by (cases "rows_text esc (names result) (types result) (ColumnCount result) (drop (Suc row) ?rows) False")
        (simp_all add: d Some)
    finally show ?thesis .
  qed
qed

text \<open>So does the loop over one block; it leaves \<^verbatim>\<open>first_row\<close> false once it has
  written a row.\<close>

lemma chunk_rows_loop_text:
  "row \<le> length chunk \<Longrightarrow>
   chunk_rows_loop esc ns ts cc chunk row first json =
     map_option (\<lambda>t. (first \<and> length chunk \<le> row, json @ t))
       (rows_text esc ns ts cc (drop row chunk) first)"
proof (induction "length chunk - row" arbitrary: row first json)
  case 0
  then have "row = length chunk" by simp
  then show ?case
    by (subst chunk_rows_loop.simps) simp
next
  case (Suc n)
  then have lt: "row < length chunk" and n: "n = length chunk - Suc row"
    and le: "Suc row \<le> length chunk" by simp_all
  have d: "drop row chunk = (chunk ! row) # drop (Suc row) chunk"
    using lt by (simp add: Cons_nth_drop_Suc)
  have c: "columns_loop esc ns ts (\<lambda>col. DataChunk_GetValue chunk col row) cc 0
             (json @ (if \<not> first then '','' else []) @ ''{'')
           = map_option ((@) (json @ (if \<not> first then '','' else []) @ ''{''))
               (row_text esc ns ts cc (chunk ! row))"
    unfolding row_text_def DataChunk_GetValue_row [OF lt] by (rule columns_loop_from_empty)
  show ?case
  proof (cases "row_text esc ns ts cc (chunk ! row)")
    case None
    then show ?thesis
      using lt by (subst chunk_rows_loop.simps) (simp add: c d)
  next
    case (Some t)
    have "chunk_rows_loop esc ns ts cc chunk row first json
          = chunk_rows_loop esc ns ts cc chunk (Suc row) False
              ((json @ (if \<not> first then '','' else []) @ ''{'' @ t) @ ''}'')"
      using lt Some by (subst chunk_rows_loop.simps) (simp add: c)
    also have "\<dots> = map_option (\<lambda>u. (False, ((json @ (if \<not> first then '','' else []) @ ''{'' @ t) @ ''}'') @ u))
         (rows_text esc ns ts cc (drop (Suc row) chunk) False)"
      using Suc.hyps(1) [OF n le] by simp
    also have "\<dots> = map_option (\<lambda>t. (first \<and> length chunk \<le> row, json @ t))
         (rows_text esc ns ts cc (drop row chunk) first)"
      using lt by (cases "rows_text esc ns ts cc (drop (Suc row) chunk) False") (simp_all add: d Some)
    finally show ?thesis .
  qed
qed

lemma rows_text_append:
  "rows_text esc ns ts cc (xs @ ys) first =
     (case rows_text esc ns ts cc xs first of
        None \<Rightarrow> None
      | Some a \<Rightarrow> map_option ((@) a) (rows_text esc ns ts cc ys (first \<and> xs = [])))"
proof (induction xs arbitrary: first)
  case Nil
  show ?case by (simp add: map_option_append_Nil)
next
  case (Cons x xs)
  show ?case
  proof (cases "row_text esc ns ts cc x")
    case None
    then show ?thesis by simp
  next
    case (Some t)
    show ?thesis
    proof (cases "rows_text esc ns ts cc xs False")
      case None
      with Some show ?thesis by (simp add: Cons.IH)
    next
      case (Some a)
      with \<open>row_text esc ns ts cc x = Some t\<close> show ?thesis
        by (cases "rows_text esc ns ts cc ys False") (simp_all add: Cons.IH)
    qed
  qed
qed

text \<open>The fetch loop writes the rows of the blocks before the first empty block.\<close>

lemma fetch_loop_text:
  "fetch_loop esc ns ts cc pending first json =
     map_option ((@) json)
       (rows_text esc ns ts cc (concat (takeWhile (\<lambda>chunk. chunk \<noteq> []) pending)) first)"
proof (induction pending arbitrary: first json)
  case Nil
  show ?case by simp
next
  case (Cons chunk pending)
  show ?case
  proof (cases "chunk = []")
    case True
    then show ?thesis by simp
  next
    case False
    have "chunk_rows_loop esc ns ts cc chunk 0 first json
          = map_option (\<lambda>t. (False, json @ t)) (rows_text esc ns ts cc chunk first)"
      using False chunk_rows_loop_text [of 0 chunk esc ns ts cc first json] by simp
    with False show ?thesis
    proof (cases "rows_text esc ns ts cc chunk first")
      case None
      with False \<open>chunk_rows_loop esc ns ts cc chunk 0 first json
          = map_option (\<lambda>t. (False, json @ t)) (rows_text esc ns ts cc chunk first)\<close>
      show ?thesis by (simp add: rows_text_append)
    next
      case (Some a)
      with False \<open>chunk_rows_loop esc ns ts cc chunk 0 first json
          = map_option (\<lambda>t. (False, json @ t)) (rows_text esc ns ts cc chunk first)\<close>
      show ?thesis
        by (cases "rows_text esc ns ts cc (concat (takeWhile (\<lambda>chunk. chunk \<noteq> []) pending)) False")
          (simp_all add: Cons.IH rows_text_append)
    qed
  qed
qed

lemma takeWhile_all: "\<forall>x \<in> set xs. P x \<Longrightarrow> takeWhile P xs = xs"
  by (induction xs) simp_all

lemma resultToJson_text:
  "resultToJson sg result =
     map_option (\<lambda>t. ''['' @ t @ '']'')
       (rows_text (escapeJsonString sg) (names result) (types result) (ColumnCount result)
          (concat (chunks result)) True)"
  using rows_loop_text [of 0 result "escapeJsonString sg" "''[''"]
  by (simp add: resultToJson_def option.map_comp comp_def)

lemma queryResultToJson_text:
  "queryResultToJson sg result =
     map_option (\<lambda>t. ''['' @ t @ '']'')
       (rows_text (escapeJsonString sg) (names result) (types result) (ColumnCount result)
          (concat (takeWhile (\<lambda>chunk. chunk \<noteq> []) (chunks result))) True)"
  by (simp add: queryResultToJson_def fetch_loop_text option.map_comp comp_def)

lemma resultToJson_ios_eq: "resultToJson_ios sg result = queryResultToJson sg result"
  by (simp add: resultToJson_ios_def queryResultToJson_def escapeJsonString_ios_eq)

text \<open>On a result object whose name list and rows cover every column, no access is out
  of range and the serializers return a text.\<close>

lemma columns_loop_defined:
  "col \<le> cc \<Longrightarrow> cc \<le> length ns \<Longrightarrow> cc \<le> length ts \<Longrightarrow> cc \<le> length cells \<Longrightarrow>
   \<exists>t. columns_loop esc ns ts (cell_get cells) cc col json = Some t"
proof (induction "cc - col" arbitrary: col json)
  case 0
  then show ?case by (subst columns_loop.simps) simp
next
  case (Suc n)
  then have lt: "col < cc" and n: "n = cc - Suc col" and le: "Suc col \<le> cc" by simp_all
  have "col < length ts"
    using lt Suc.prems by simp
  then have "\<exists>enc. encode_value esc ts col (cells ! col) = Some enc"
    by (simp add: encode_value_def)
  then obtain enc where e: "encode_value esc ts col (cells ! col) = Some enc" ..
  have g: "cell_get cells col = Some (cells ! col)"
    using lt Suc.prems by (simp add: cell_get_def)
  show ?case
    using Suc.hyps(1) [OF n le Suc.prems(2,3,4)] lt Suc.prems(2)
    by (subst columns_loop.simps) (simp add: e g)
qed

lemma rows_text_defined:
  "cc \<le> length ns \<Longrightarrow> cc \<le> length ts \<Longrightarrow> \<forall>cells \<in> set rows. cc \<le> length cells \<Longrightarrow>
   \<exists>t. rows_text esc ns ts cc rows first = Some t"
proof (induction rows arbitrary: first)
  case Nil
  show ?case by simp
next
  case (Cons cells rows)
  obtain t where t: "row_text esc ns ts cc cells = Some t"
    using columns_loop_defined [of 0 cc ns ts cells esc "[]"] Cons.prems
    by (auto simp: row_text_def)
  obtain u where u: "rows_text esc ns ts cc rows False = Some u"
    using Cons.IH [of False] Cons.prems by auto
  show ?case by (simp add: t u)
qed

lemma resultToJson_defined:
  assumes "wf_result result"
  shows "\<exists>json. resultToJson sg result = Some json"
proof -
  have "\<exists>t. rows_text (escapeJsonString sg) (names result) (types result) (ColumnCount result)
              (concat (chunks result)) True = Some t"
    using assms by (intro rows_text_defined) (auto simp: wf_result_def ColumnCount_def)
  then show ?thesis
    using rows_loop_text [of 0 result "escapeJsonString sg" "''[''"]
    by (auto simp: resultToJson_def)
qed

lemma queryResultToJson_defined:
  assumes "wf_result result"
  shows "\<exists>json. queryResultToJson sg result = Some json"
proof -
  have "set (takeWhile (\<lambda>chunk. chunk \<noteq> []) (chunks result)) \<subseteq> set (chunks result)"
    by (auto dest: set_takeWhileD)
  then have "\<exists>t. rows_text (escapeJsonString sg) (names result) (types result) (ColumnCount result)
              (concat (takeWhile (\<lambda>chunk. chunk \<noteq> []) (chunks result))) True = Some t"
    using assms by (intro rows_text_defined) (auto simp: wf_result_def ColumnCount_def)
  then show ?thesis
    by (auto simp: queryResultToJson_text)
qed

text \<open>The example of the specification, by both access modes.\<close>

lemma example_materialized: \<open>resultToJson True example_result = Some ''[{"a":1,"b":"x"},{"a":2,"b":null}]''\<close>
  by code_simp

lemma example_chunked: \<open>queryResultToJson True example_result = Some ''[{"a":1,"b":"x"},{"a":2,"b":null}]''\<close>
  by code_simp

text \<open>The serialized text holds no NUL byte, provided the floating-point texts hold
  none: a NUL byte in a name or in a value's string form is escaped.\<close>

lemma hex_digit_not_nul: "d < 16 \<Longrightarrow> hex_digit d \<noteq> CHR 0x00"
proof -
  assume "d < 16"
  then have "d = 0 \<or> d = 1 \<or> d = 2 \<or> d = 3 \<or> d = 4 \<or> d = 5 \<or> d = 6 \<or> d = 7 \<or> d = 8
      \<or> d = 9 \<or> d = 10 \<or> d = 11 \<or> d = 12 \<or> d = 13 \<or> d = 14 \<or> d = 15"
    by arith
  then show ?thesis
    by (elim disjE) (simp_all add: hex_digit_def)
qed

lemma spec_escape_char_nul_free: "nul_free (spec_escape_char c)"
proof (cases "(of_char c :: nat) < 0x20")
  case True
  then have "of_char c div 16 < (16 :: nat)" by simp
  then have "hex_digit (of_char c div 16) \<noteq> CHR 0x00" "hex_digit (of_char c mod 16) \<noteq> CHR 0x00"
    by (simp_all add: hex_digit_not_nul del: of_char_Char)
  with True show ?thesis
    by (simp add: spec_escape_char_def del: of_char_Char)
next
  case False
  then have "c \<noteq> CHR 0x00" by auto
  with False show ?thesis
    by (simp add: spec_escape_char_def del: of_char_Char)
qed

lemma concat_escape_nul_free: "nul_free (concat (map spec_escape_char s))"
  by (induction s) (simp_all add: spec_escape_char_nul_free)

lemma escapeJsonString_nul_free: "nul_free (escapeJsonString sg s)"
  by (simp add: escapeJsonString_def escape_loop_concat escape_switch_spec concat_escape_nul_free)

lemma to_dec_nul_free: "nul_free (to_dec n)"
  using to_dec_digits [of n] by (auto simp: nul_free_def)

lemma put_nul_free: "nul_free (put_int64 v)" "nul_free (put_uint64 v)"
  by (simp_all add: put_int64_def put_uint64_def to_dec_nul_free)

lemma type_switch_nul_free:
  assumes "\<And>s. nul_free (esc s)" "nul_free (put_float val)" "nul_free (put_double val)"
  shows "nul_free (type_switch esc t val)"
  using assms by (cases t) (simp_all add: type_switch_def put_nul_free)

lemma encode_value_nul_free:
  assumes "\<And>s. nul_free (esc s)" "nul_free (put_float val)" "nul_free (put_double val)"
    and "encode_value esc ts col val = Some enc"
  shows "nul_free enc"
  using assms type_switch_nul_free [OF assms(1,2,3)]
  by (auto simp: encode_value_def split: if_splits)

lemma columns_loop_nul_free:
  assumes "\<And>s. nul_free (esc s)"
    and "\<forall>val \<in> set cells. nul_free (put_float val) \<and> nul_free (put_double val)"
  shows "nul_free json \<Longrightarrow> columns_loop esc ns ts (cell_get cells) cc col json = Some t \<Longrightarrow> nul_free t"
proof (induction "cc - col" arbitrary: col json)
  case 0
  then show ?case
    by (simp add: columns_loop.simps [of _ _ _ _ cc col])
next
  case (Suc n)
  then have lt: "col < cc" and n: "n = cc - Suc col" by simp_all
  from Suc.prems(2) lt obtain val enc where
    g: "cell_get cells col = Some val" and e: "encode_value esc ts col val = Some enc"
    and r: "columns_loop esc ns ts (cell_get cells) cc (Suc col)
              (json @ (if col > 0 then '','' else []) @ esc (ns ! col) @ '':'' @ enc) = Some t"
    by (subst (asm) columns_loop.simps) (auto split: if_splits option.splits)
  from g have "val \<in> set cells"
    by (auto simp: cell_get_def split: if_splits)
  then have "nul_free enc"
    using encode_value_nul_free [OF assms(1) _ _ e] assms(2) by blast
  then have "nul_free (json @ (if col > 0 then '','' else []) @ esc (ns ! col) @ '':'' @ enc)"
    using Suc.prems(1) assms(1) by simp
  then show ?case
    using Suc.hyps(1) [OF n _ r] by blast
qed

lemma rows_text_nul_free:
  assumes "\<And>s. nul_free (esc s)"
  shows "\<forall>cells \<in> set rows. \<forall>val \<in> set cells. nul_free (put_float val) \<and> nul_free (put_double val) \<Longrightarrow>
         rows_text esc ns ts cc rows first = Some t \<Longrightarrow> nul_free t"
proof (induction rows arbitrary: first t)
  case Nil
  then show ?case by simp
next
  case (Cons cells rows)
  from Cons.prems(2) obtain a b where a: "row_text esc ns ts cc cells = Some a"
    and b: "rows_text esc ns ts cc rows False = Some b"
    and t: "t = (if first then [] else '','') @ ''{'' @ a @ ''}'' @ b"
    by (auto split: option.splits)
  have "nul_free a"
    using columns_loop_nul_free [OF assms, where cells = cells and json = "[]" and t = a] a
      Cons.prems(1)
    by (simp add: row_text_def)
  moreover have "nul_free b"
    using Cons.IH [OF _ b] Cons.prems(1) by simp
  ultimately show ?case
    by (simp add: t)
qed

lemma json_nul_free:
  assumes "floats_nul_free result"
  shows "resultToJson sg result = Some json \<Longrightarrow> nul_free json"
    and "queryResultToJson sg result = Some json \<Longrightarrow> nul_free json"
proof -
  have all: "\<forall>cells \<in> set (concat (chunks result)). \<forall>val \<in> set cells.
      nul_free (put_float val) \<and> nul_free (put_double val)"
    using assms by (auto simp: floats_nul_free_def)
  have part: "\<forall>cells \<in> set (concat (takeWhile (\<lambda>chunk. chunk \<noteq> []) (chunks result))). \<forall>val \<in> set cells.
      nul_free (put_float val) \<and> nul_free (put_double val)"
    using assms by (auto simp: floats_nul_free_def dest: set_takeWhileD)
  show "resultToJson sg result = Some json \<Longrightarrow> nul_free json"
    using rows_text_nul_free [OF escapeJsonString_nul_free all]
    by (auto simp: resultToJson_text)
  show "queryResultToJson sg result = Some json \<Longrightarrow> nul_free json"
    using rows_text_nul_free [OF escapeJsonString_nul_free part]
    by (auto simp: queryResultToJson_text)
qed

text \<open>
  \<^bold>\<open>Claim C1.\<close> For every result object --- column names, column types, and rows held
  in non-empty blocks, an empty block being the end marker of the fetch protocol ---
  the chunked serializer \<^verbatim>\<open>queryResultToJson\<close> (and the iOS \<^verbatim>\<open>resultToJson\<close>, which is
  chunked too) and the materialized serializer \<^verbatim>\<open>resultToJson\<close> return the same text,
  byte for byte: the same rows in the same order, the same columns in declaration
  order, each row being the text of its cells under the column names. They also
  agree on failing, when the object has fewer names or cells than columns; on an
  object that covers every column they return a text.
\<close>

theorem chunked_equals_materialized:
  assumes "\<forall>chunk \<in> set (chunks result). chunk \<noteq> []"
  shows "queryResultToJson sg result = resultToJson sg result
       \<and> resultToJson_ios sg result = resultToJson sg result
       \<and> resultToJson sg result =
           map_option (\<lambda>t. ''['' @ t @ '']'')
             (rows_text (escapeJsonString sg) (names result) (types result) (ColumnCount result)
                (concat (chunks result)) True)
       \<and> (wf_result result \<longrightarrow> resultToJson sg result \<noteq> None)"
proof -
  have t: "takeWhile (\<lambda>chunk. chunk \<noteq> []) (chunks result) = chunks result"
    using assms by (intro takeWhile_all) simp
  have q: "queryResultToJson sg result = resultToJson sg result"
    by (simp add: queryResultToJson_text resultToJson_text t)
  have d: "wf_result result \<longrightarrow> resultToJson sg result \<noteq> None"
    using resultToJson_defined [of result sg] by auto
  have i: "resultToJson_ios sg result = resultToJson sg result"
    using q by (simp add: resultToJson_ios_eq)
  from q i resultToJson_text [of sg result] d show ?thesis
    by (intro conjI)
qed

theorem chunked_equals_materialized_witness:
  \<open>[] \<notin> set (chunks example_result)
   \<and> queryResultToJson True example_result = resultToJson True example_result
   \<and> resultToJson_ios True example_result = resultToJson True example_result
   \<and> resultToJson True example_result = Some ''[{"a":1,"b":"x"},{"a":2,"b":null}]''\<close>
proof -
  have h: "\<forall>chunk \<in> set (chunks example_result). chunk \<noteq> []"
    by (simp add: example_result_def)
  have n: "[] \<notin> set (chunks example_result)"
    by (simp add: example_result_def)
  from n example_materialized chunked_equals_materialized [OF h, of True] show ?thesis
    by (intro conjI) simp_all
qed

section \<open>The binding store\<close>

lemma size_to_int_small: "n < 2 ^ 31 \<Longrightarrow> size_to_int n = int n"
  by (simp add: size_to_int_def)

lemma int_to_size_small: "0 \<le> i \<Longrightarrow> i < 2 ^ 31 \<Longrightarrow> int_to_size i = nat i"
  by (simp add: int_to_size_def)

lemma sint32_bounds: "- (2 ^ 31) \<le> sint (index :: 32 word)" "sint (index :: 32 word) < 2 ^ 31"
  using sint_ge [of index] sint_lt [of index] by simp_all

lemma index_minus_1_pos: "1 \<le> sint index \<Longrightarrow> index_minus_1 index = Some (sint index - 1)"
  by (simp add: index_minus_1_def)

lemma index_minus_1_defined: "sint index \<noteq> - (2 ^ 31) \<Longrightarrow> index_minus_1 index = Some (sint index - 1)"
  using sint32_bounds(1) [of index] by (simp add: index_minus_1_def)

lemma index_minus_1_min: "index_minus_1 (- 2147483648) = None"
  by (simp add: index_minus_1_def)

lemma store_after_resize:
  assumes "1 \<le> i" "i < 2 ^ 31" "length old \<le> nat (i - 1)"
  shows "vector_set (resize old (int_to_size i)) (nat (i - 1)) x = Some (bind_spec old (nat i) x)"
proof -
  have "int_to_size i = nat i"
    using assms by (simp add: int_to_size_small)
  moreover have "length old < nat i" "nat (i - 1) = nat i - 1"
    using assms by linarith+
  ultimately show ?thesis
    by (simp add: vector_set_def resize_def bind_spec_def)
qed

lemma store_without_resize:
  assumes "1 \<le> i" "\<not> length old \<le> nat (i - 1)"
  shows "vector_set old (nat (i - 1)) x = Some (bind_spec old (nat i) x)"
proof -
  have "nat i - length old = 0" "nat (i - 1) = nat i - 1" "nat (i - 1) < length old"
    using assms by linarith+
  then show ?thesis
    by (simp add: vector_set_def bind_spec_def)
qed

text \<open>With a live handle and an index from 1 on, both bridges perform the contract of
  \<^emph>\<open>bind\<close>. (On Android the size of the store is compared after a cast to \<^verbatim>\<open>int\<close>,
  hence the bound on the size.)\<close>

lemma jni_bind_live:
  assumes "h \<noteq> 0" "statements w h = Some wrapper" "1 \<le> sint index"
    and "length (bindings wrapper) < 2 ^ 31"
  shows "jni_bind w h index x =
           Returns True (with_bindings w h wrapper (bind_spec (bindings wrapper) (nat (sint index)) x))"
proof -
  have b: "sint index < 2 ^ 31"
    using sint32_bounds(2) [of index] by simp
  have c: "(size_to_int (length (bindings wrapper)) < sint index)
             = (length (bindings wrapper) \<le> nat (sint index - 1))"
    using assms(3,4) by (simp add: size_to_int_small) linarith
  have s: "int_to_size (sint index - 1) = nat (sint index - 1)"
    using assms(3) b by (simp add: int_to_size_small)
  show ?thesis
  proof (cases "length (bindings wrapper) \<le> nat (sint index - 1)")
    case True
    then show ?thesis
      using assms(1,2,3) store_after_resize [OF assms(3) b True, of x]
      by (simp add: jni_bind_def index_minus_1_pos c s with_bindings_def)
  next
    case False
    then show ?thesis
      using assms(1,2,3) store_without_resize [OF assms(3) False, of x]
      by (simp add: jni_bind_def index_minus_1_pos c s with_bindings_def)
  qed
qed

lemma ios_bind_live:
  assumes "h \<noteq> 0" "statements w h = Some wrapper" "1 \<le> sint index"
  shows "ios_bind w h index x =
           Returns True (with_bindings w h wrapper (bind_spec (bindings wrapper) (nat (sint index)) x))"
proof -
  have b: "sint index < 2 ^ 31"
    using sint32_bounds(2) [of index] by simp
  have s: "int_to_size (sint index - 1) = nat (sint index - 1)"
    using assms(3) b by (simp add: int_to_size_small)
  show ?thesis
  proof (cases "length (bindings wrapper) \<le> nat (sint index - 1)")
    case True
    then show ?thesis
      using assms store_after_resize [OF assms(3) b True, of x]
      by (simp add: ios_bind_def s with_bindings_def)
  next
    case False
    then show ?thesis
      using assms store_without_resize [OF assms(3) False, of x]
      by (simp add: ios_bind_def s with_bindings_def)
  qed
qed

lemma length_bind_spec: "length (bind_spec old i x) = max (length old) i"
  by (simp add: bind_spec_def)

lemma nth_bind_spec_written: "1 \<le> i \<Longrightarrow> bind_spec old i x ! (i - 1) = x"
  by (simp add: bind_spec_def)

lemma nth_bind_spec_other:
  "j < max (length old) i \<Longrightarrow> j \<noteq> i - 1 \<Longrightarrow>
   bind_spec old i x ! j = (if j < length old then old ! j else Value_NULL)"
  by (auto simp: bind_spec_def nth_append)

lemma bind_spec_example:
  "bind_spec [] 5 x = [Value_NULL, Value_NULL, Value_NULL, Value_NULL, x]"
  by (simp add: bind_spec_def numeral_eq_Suc)


text \<open>
  \<^bold>\<open>Claim C2.\<close> For every store behind a live statement handle and every bind
  operation (string, 64-bit integer, double, boolean, null) at an index \<open>i \<ge> 1\<close>: the
  operation reports success; afterwards the store has size \<open>max n i\<close>, where \<open>n\<close> was
  its size, so it has grown to exactly \<open>i\<close> when \<open>i\<close> exceeded \<open>n\<close>; position \<open>i\<close> holds
  the bound value, whatever it held before; every other position below \<open>n\<close> is
  unchanged and every new position is null.
\<close>

theorem bind_grows_and_writes:
  assumes "h \<noteq> 0" and "statements w h = Some wrapper" and "1 \<le> sint index"
    and "length (bindings wrapper) < 2 ^ 31"
  shows "DuckDBNative_bindString w h index (Some s) =
           Returns True (with_bindings w h wrapper
             (bind_spec (bindings wrapper) (nat (sint index)) (Value_VARCHAR s)))
       \<and> DuckDBNative_bindLong w h index n =
           Returns True (with_bindings w h wrapper
             (bind_spec (bindings wrapper) (nat (sint index)) (Value_BIGINT n)))
       \<and> DuckDBNative_bindDouble w h index d =
           Returns True (with_bindings w h wrapper
             (bind_spec (bindings wrapper) (nat (sint index)) (Value_DOUBLE d)))
       \<and> DuckDBNative_bindBoolean w h index jb =
           Returns True (with_bindings w h wrapper
             (bind_spec (bindings wrapper) (nat (sint index)) (Value_BOOLEAN (jb = 1))))
       \<and> DuckDBNative_bindNull w h index =
           Returns True (with_bindings w h wrapper
             (bind_spec (bindings wrapper) (nat (sint index)) Value_NULL))
       \<and> duckdb_ios_bind_string w h index (Some s) =
           Returns True (with_bindings w h wrapper
             (bind_spec (bindings wrapper) (nat (sint index)) (Value_VARCHAR s)))
       \<and> duckdb_ios_bind_int64 w h index n =
           Returns True (with_bindings w h wrapper
             (bind_spec (bindings wrapper) (nat (sint index)) (Value_BIGINT n)))
       \<and> duckdb_ios_bind_double w h index d =
           Returns True (with_bindings w h wrapper
             (bind_spec (bindings wrapper) (nat (sint index)) (Value_DOUBLE d)))
       \<and> duckdb_ios_bind_bool w h index b =
           Returns True (with_bindings w h wrapper
             (bind_spec (bindings wrapper) (nat (sint index)) (Value_BOOLEAN b)))
       \<and> duckdb_ios_bind_null w h index =
           Returns True (with_bindings w h wrapper
             (bind_spec (bindings wrapper) (nat (sint index)) Value_NULL))
       \<and> length (bind_spec (bindings wrapper) (nat (sint index)) x)
           = max (length (bindings wrapper)) (nat (sint index))
       \<and> bind_spec (bindings wrapper) (nat (sint index)) x ! (nat (sint index) - 1) = x
       \<and> (\<forall>j < max (length (bindings wrapper)) (nat (sint index)). j \<noteq> nat (sint index) - 1 \<longrightarrow>
            bind_spec (bindings wrapper) (nat (sint index)) x ! j
              = (if j < length (bindings wrapper) then bindings wrapper ! j else Value_NULL))"
proof -
  have i: "1 \<le> nat (sint index)"
    using assms(3) by simp
  have a: "\<And>x. jni_bind w h index x =
      Returns True (with_bindings w h wrapper (bind_spec (bindings wrapper) (nat (sint index)) x))"
    by (rule jni_bind_live [OF assms])
  have b: "\<And>x. ios_bind w h index x =
      Returns True (with_bindings w h wrapper (bind_spec (bindings wrapper) (nat (sint index)) x))"
    by (rule ios_bind_live [OF assms(1,2,3)])
  show ?thesis
    using nth_bind_spec_written [OF i, of "bindings wrapper" x]
    by (simp add: DuckDBNative_bindString_def DuckDBNative_bindLong_def DuckDBNative_bindDouble_def
        DuckDBNative_bindBoolean_def DuckDBNative_bindNull_def duckdb_ios_bind_string_def
        duckdb_ios_bind_int64_def duckdb_ios_bind_double_def duckdb_ios_bind_bool_def
        duckdb_ios_bind_null_def a b length_bind_spec nth_bind_spec_other)
qed

theorem bind_grows_and_writes_witness:
  "(3 :: handle) \<noteq> 0 \<and> statements example_world 3 = Some example_wrapper
   \<and> 1 \<le> sint (5 :: 32 word) \<and> length (bindings example_wrapper) < 2 ^ 31
   \<and> DuckDBNative_bindLong example_world 3 5 42 =
       Returns True (with_bindings example_world 3 example_wrapper
         [Value_NULL, Value_NULL, Value_NULL, Value_NULL, Value_BIGINT 42])
   \<and> duckdb_ios_bind_int64 example_world 3 5 42 =
       Returns True (with_bindings example_world 3 example_wrapper
         [Value_NULL, Value_NULL, Value_NULL, Value_NULL, Value_BIGINT 42])"
proof -
  have h: "(3 :: handle) \<noteq> 0" "statements example_world 3 = Some example_wrapper"
    "1 \<le> sint (5 :: 32 word)" "length (bindings example_wrapper) < 2 ^ 31"
    by (simp_all add: example_world_def example_wrapper_def)
  have e: "bindings example_wrapper = []" "nat (sint (5 :: 32 word)) = 5"
    by (simp_all add: example_wrapper_def)
  show ?thesis
    using h bind_grows_and_writes [OF h, of _ 42] by (simp add: e bind_spec_example)
qed

text \<open>
  \<^bold>\<open>Claim C10.\<close> For a live statement handle and an index \<open>i \<ge> 1\<close>, binding an absent
  (null) string with the string-bind operation reports success and stores the null
  value at position \<open>i\<close>; the call is equal to bind-null at the same index, on both
  bridges.
\<close>

theorem null_string_binds_null:
  assumes "h \<noteq> 0" and "statements w h = Some wrapper" and "1 \<le> sint index"
    and "length (bindings wrapper) < 2 ^ 31"
  shows "DuckDBNative_bindString w h index None =
           Returns True (with_bindings w h wrapper
             (bind_spec (bindings wrapper) (nat (sint index)) Value_NULL))
       \<and> DuckDBNative_bindString w h index None = DuckDBNative_bindNull w h index
       \<and> duckdb_ios_bind_string w h index None =
           Returns True (with_bindings w h wrapper
             (bind_spec (bindings wrapper) (nat (sint index)) Value_NULL))
       \<and> duckdb_ios_bind_string w h index None = duckdb_ios_bind_null w h index
       \<and> bind_spec (bindings wrapper) (nat (sint index)) Value_NULL ! (nat (sint index) - 1) = Value_NULL"
proof -
  have i: "1 \<le> nat (sint index)"
    using assms(3) by simp
  show ?thesis
    using nth_bind_spec_written [OF i, of "bindings wrapper" Value_NULL]
    by (simp add: DuckDBNative_bindString_def DuckDBNative_bindNull_def duckdb_ios_bind_string_def
        duckdb_ios_bind_null_def jni_bind_live [OF assms] ios_bind_live [OF assms(1,2,3)])
qed

theorem null_string_binds_null_witness:
  "(3 :: handle) \<noteq> 0 \<and> statements example_world 3 = Some example_wrapper
   \<and> 1 \<le> sint (5 :: 32 word) \<and> length (bindings example_wrapper) < 2 ^ 31
   \<and> DuckDBNative_bindString example_world 3 5 None =
       Returns True (with_bindings example_world 3 example_wrapper
         [Value_NULL, Value_NULL, Value_NULL, Value_NULL, Value_NULL])
   \<and> duckdb_ios_bind_string example_world 3 5 None =
       Returns True (with_bindings example_world 3 example_wrapper
         [Value_NULL, Value_NULL, Value_NULL, Value_NULL, Value_NULL])"
proof -
  have h: "(3 :: handle) \<noteq> 0" "statements example_world 3 = Some example_wrapper"
    "1 \<le> sint (5 :: 32 word)" "length (bindings example_wrapper) < 2 ^ 31"
    by (simp_all add: example_world_def example_wrapper_def)
  have e: "bindings example_wrapper = []" "nat (sint (5 :: 32 word)) = 5"
    by (simp_all add: example_wrapper_def)
  show ?thesis
    using h null_string_binds_null [OF h] by (simp add: e bind_spec_example)
qed

subsection \<open>Indexes below 1\<close>

text \<open>The iOS functions test \<^verbatim>\<open>index < 1\<close> first and reject every such index. The
  Android functions subtract first and test \<^verbatim>\<open>idx < 0\<close> afterwards: they reject every
  index below 1 except the least \<^verbatim>\<open>int\<close>, where the subtraction overflows.\<close>

lemma ios_bind_rejects: "sint index < 1 \<Longrightarrow> ios_bind w h index x = Returns False w"
  by (simp add: ios_bind_def)

lemma jni_bind_rejects:
  "sint index < 1 \<Longrightarrow> sint index \<noteq> - (2 ^ 31) \<Longrightarrow> jni_bind w h index x = Returns False w"
  by (simp add: jni_bind_def index_minus_1_defined)

lemma nonpositive_index_rejected:
  "sint index < 1 \<Longrightarrow> ios_bind w h index x = Returns False w"
  "sint index < 1 \<Longrightarrow> sint index \<noteq> - (2 ^ 31) \<Longrightarrow> jni_bind w h index x = Returns False w"
  by (simp_all add: ios_bind_rejects jni_bind_rejects)

lemma jni_bind_least_int: "h \<noteq> 0 \<Longrightarrow> jni_bind w h (- 2147483648) x = UndefinedBehaviour"
  by (simp add: jni_bind_def index_minus_1_min)

text \<open>
  \<^bold>\<open>Claim C6\<close> says that a bind operation with index 0 or a negative index returns false
  and leaves the store as it was. On Android this fails at the index -2147483648:
  with a non-null handle, \<^verbatim>\<open>int idx = index - 1\<close> overflows, which is undefined
  behaviour, in each of the five bind functions; the iOS function returns false
  there.
\<close>

theorem least_index_not_rejected:
  "DuckDBNative_bindString w 1 (- 2147483648) text_val = UndefinedBehaviour
 \<and> DuckDBNative_bindLong w 1 (- 2147483648) long_val = UndefinedBehaviour
 \<and> DuckDBNative_bindDouble w 1 (- 2147483648) double_val = UndefinedBehaviour
 \<and> DuckDBNative_bindBoolean w 1 (- 2147483648) jboolean_val = UndefinedBehaviour
 \<and> DuckDBNative_bindNull w 1 (- 2147483648) = UndefinedBehaviour
 \<and> sint (- 2147483648 :: 32 word) = - 2147483648
 \<and> duckdb_ios_bind_string w 1 (- 2147483648) text_val = Returns False w"
  by (simp add: DuckDBNative_bindString_def DuckDBNative_bindLong_def DuckDBNative_bindDouble_def
      DuckDBNative_bindBoolean_def DuckDBNative_bindNull_def jni_bind_least_int
      duckdb_ios_bind_string_def ios_bind_def)

section \<open>Sequences of operations on a store\<close>

lemma store_size_with_bindings [simp]: "store_size (with_bindings w h wrapper v) h = length v"
  by (simp add: store_size_def with_bindings_def)

lemma statements_with_bindings [simp]: "statements (with_bindings w h wrapper v) h \<noteq> None"
  by (simp add: with_bindings_def)

lemma statements_engine_call [simp]: "statements (engine_call c w) = statements w"
  by (simp add: engine_call_def)

lemma store_size_engine_call [simp]: "store_size (engine_call c w) h = store_size w h"
  by (simp add: store_size_def)

lemma store_kept_refl [simp]: "store_kept w w h"
  by (simp add: store_kept_def)

























lemma engine_error_query:
  assumes "c \<noteq> 0" "connections w c = Some conn" "HasError result"
  shows "DuckDBNative_query sg w c (Some sql) (Inr result) =
           Returns (''ERROR:'' @ c_str (GetError result)) (engine_call (Connection_Query c sql) w)"
    and "DuckDBNative_execute w c (Some sql) (Inr result) =
           Returns (''ERROR:'' @ c_str (GetError result)) (engine_call (Connection_Query c sql) w)"
    and "duckdb_ios_query sg w c (Some sql) error_out (Inr result) =
           Returns (None, if error_out then Some (c_str (GetError result)) else None)
             (engine_call (Connection_Query c sql) w)"
    and "duckdb_ios_execute w c (Some sql) rows_changed_out error_out (Inr result) =
           Returns (False, None, if error_out then Some (c_str (GetError result)) else None)
             (engine_call (Connection_Query c sql) w)"
  using assms
  by (simp_all add: DuckDBNative_query_def DuckDBNative_execute_def duckdb_ios_query_def
      duckdb_ios_execute_def set_error_out_def NewStringUTF_def duplicate_string_def)

lemma engine_error_prepared:
  assumes "h \<noteq> 0" "statements w h = Some wrapper" "HasError result"
  shows "DuckDBNative_executePrepared sg w h (Inr result) =
           Returns (''ERROR:'' @ c_str (GetError result))
             (engine_call (Statement_Execute h (bindings wrapper)) w)"
    and "duckdb_ios_execute_prepared sg w h error_out (Inr result) =
           Returns (None, if error_out then Some (c_str (GetError result)) else None)
             (engine_call (Statement_Execute h (bindings wrapper)) w)"
  using assms
  by (simp_all add: DuckDBNative_executePrepared_def duckdb_ios_execute_prepared_def
      set_error_out_def NewStringUTF_def duplicate_string_def)








section \<open>Null handles\<close>

text \<open>
  \<^bold>\<open>Claim C8.\<close> Every operation that takes a handle, called with the null handle,
  returns at once: with its error sentinel (0, false, or the \<^verbatim>\<open>ERROR:\<close> text; a null
  result with the message in the error slot, when the caller passed one, on iOS;
  nothing for the operations that return \<^verbatim>\<open>void\<close>), in a world that is unchanged ---
  no object created, changed or deleted, no call to the engine --- and whatever the
  heap holds, so that nothing is dereferenced.
\<close>

theorem null_handle_fails_locally:
  "DuckDBNative_closeDatabase w 0 = Returns () w
 \<and> DuckDBNative_connect w 0 conn_reply p = Returns 0 w
 \<and> DuckDBNative_disconnect w 0 = Returns () w
 \<and> DuckDBNative_query sg w 0 sql query_reply = Returns ''ERROR:Invalid connection handle'' w
 \<and> DuckDBNative_execute w 0 sql query_reply = Returns ''ERROR:Invalid connection handle'' w
 \<and> DuckDBNative_prepare w 0 sql prepare_reply p = Returns 0 w
 \<and> DuckDBNative_destroyPrepared w 0 = Returns () w
 \<and> DuckDBNative_bindString w 0 index text_val = Returns False w
 \<and> DuckDBNative_bindLong w 0 index long_val = Returns False w
 \<and> DuckDBNative_bindDouble w 0 index double_val = Returns False w
 \<and> DuckDBNative_bindBoolean w 0 index jboolean_val = Returns False w
 \<and> DuckDBNative_bindNull w 0 index = Returns False w
 \<and> DuckDBNative_executePrepared sg w 0 query_reply = Returns ''ERROR:Invalid statement handle'' w
 \<and> DuckDBNative_clearBindings w 0 = Returns False w
 \<and> duckdb_ios_close_database w 0 = Returns () w
 \<and> duckdb_ios_connect w 0 error_out conn_reply p =
       Returns (0, if error_out then Some ''Invalid database handle'' else None) w
 \<and> duckdb_ios_disconnect w 0 = Returns () w
 \<and> duckdb_ios_query sg w 0 sql error_out query_reply =
       Returns (None, if error_out then Some ''Invalid connection'' else None) w
 \<and> duckdb_ios_execute w 0 sql rows_changed_out error_out query_reply =
       Returns (False, None, if error_out then Some ''Invalid connection'' else None) w
 \<and> duckdb_ios_prepare w 0 sql error_out prepare_reply p =
       Returns (0, if error_out then Some ''Invalid connection'' else None) w
 \<and> duckdb_ios_destroy_prepared w 0 = Returns () w
 \<and> duckdb_ios_bind_string w 0 index text_val = Returns False w
 \<and> duckdb_ios_bind_int64 w 0 index long_val = Returns False w
 \<and> duckdb_ios_bind_double w 0 index double_val = Returns False w
 \<and> duckdb_ios_bind_bool w 0 index bool_val = Returns False w
 \<and> duckdb_ios_bind_null w 0 index = Returns False w
 \<and> duckdb_ios_clear_bindings w 0 = Returns () w
 \<and> duckdb_ios_execute_prepared sg w 0 error_out query_reply =
       Returns (None, if error_out then Some ''Invalid statement handle'' else None) w
 \<and> duckdb_ios_has_spatial_extension w 0 = Returns False w"
  by (simp add: DuckDBNative_closeDatabase_def DuckDBNative_connect_def DuckDBNative_disconnect_def
      DuckDBNative_query_def DuckDBNative_execute_def DuckDBNative_prepare_def
      DuckDBNative_destroyPrepared_def DuckDBNative_bindString_def DuckDBNative_bindLong_def
      DuckDBNative_bindDouble_def DuckDBNative_bindBoolean_def DuckDBNative_bindNull_def
      DuckDBNative_executePrepared_def DuckDBNative_clearBindings_def jni_bind_def
      duckdb_ios_close_database_def duckdb_ios_connect_def duckdb_ios_disconnect_def
      duckdb_ios_query_def duckdb_ios_execute_def duckdb_ios_prepare_def
      duckdb_ios_destroy_prepared_def duckdb_ios_bind_string_def duckdb_ios_bind_int64_def
      duckdb_ios_bind_double_def duckdb_ios_bind_bool_def duckdb_ios_bind_null_def
      duckdb_ios_clear_bindings_def duckdb_ios_execute_prepared_def
      duckdb_ios_has_spatial_extension_def ios_bind_def set_error_out_def
      NewStringUTF_def duplicate_string_def c_str_def)

section \<open>Prepare\<close>



section \<open>Errors reported by the engine\<close>

lemma bracketed_not_error: "take 6 (CHR ''['' # t) \<noteq> ''ERROR:''"
  by simp

lemma json_not_error:
  "resultToJson sg result = Some out \<Longrightarrow> take 6 (c_str out) \<noteq> ''ERROR:''"
  "queryResultToJson sg result = Some out \<Longrightarrow> take 6 (c_str out) \<noteq> ''ERROR:''"
  by (auto simp: resultToJson_text queryResultToJson_text)

lemma changes_json_c_str: "c_str (changes_json result) = changes_json result"
  by (rule c_str_nul_free_id) (simp add: changes_json_def put_nul_free)

lemma success_query:
  assumes "c \<noteq> 0" "connections w c = Some conn" "\<not> HasError result"
  shows "DuckDBNative_query sg w c (Some sql) (Inr result) =
           (case resultToJson sg result of
              None \<Rightarrow> UndefinedBehaviour
            | Some json \<Rightarrow> Returns (c_str json) (engine_call (Connection_Query c sql) w))"
    and "DuckDBNative_execute w c (Some sql) (Inr result) =
           Returns (changes_json result) (engine_call (Connection_Query c sql) w)"
    and "duckdb_ios_query sg w c (Some sql) error_out (Inr result) =
           (case resultToJson_ios sg result of
              None \<Rightarrow> UndefinedBehaviour
            | Some json \<Rightarrow> Returns (Some (c_str json), None) (engine_call (Connection_Query c sql) w))"
    and "duckdb_ios_execute w c (Some sql) rows_changed_out error_out (Inr result) =
           Returns (True, if rows_changed_out then Some (word_of_nat (RowCount result)) else None, None)
             (engine_call (Connection_Query c sql) w)"
proof -
  show "DuckDBNative_query sg w c (Some sql) (Inr result) =
           (case resultToJson sg result of
              None \<Rightarrow> UndefinedBehaviour
            | Some json \<Rightarrow> Returns (c_str json) (engine_call (Connection_Query c sql) w))"
    using assms by (simp add: DuckDBNative_query_def NewStringUTF_def split: option.splits)
  have "DuckDBNative_execute w c (Some sql) (Inr result) =
           Returns (NewStringUTF (c_str (changes_json result))) (engine_call (Connection_Query c sql) w)"
    using assms by (simp add: DuckDBNative_execute_def changes_json_def)
  then show "DuckDBNative_execute w c (Some sql) (Inr result) =
           Returns (changes_json result) (engine_call (Connection_Query c sql) w)"
    by (simp add: NewStringUTF_def changes_json_c_str)
  show "duckdb_ios_query sg w c (Some sql) error_out (Inr result) =
           (case resultToJson_ios sg result of
              None \<Rightarrow> UndefinedBehaviour
            | Some json \<Rightarrow> Returns (Some (c_str json), None) (engine_call (Connection_Query c sql) w))"
    using assms by (simp add: duckdb_ios_query_def duplicate_string_def split: option.splits)
  show "duckdb_ios_execute w c (Some sql) rows_changed_out error_out (Inr result) =
           Returns (True, if rows_changed_out then Some (word_of_nat (RowCount result)) else None, None)
             (engine_call (Connection_Query c sql) w)"
    using assms by (simp add: duckdb_ios_execute_def)
qed

lemma success_prepared:
  assumes "h \<noteq> 0" "statements w h = Some wrapper" "\<not> HasError result"
  shows "DuckDBNative_executePrepared sg w h (Inr result) =
           (case queryResultToJson sg result of
              None \<Rightarrow> UndefinedBehaviour
            | Some json \<Rightarrow>
                Returns (c_str json) (engine_call (Statement_Execute h (bindings wrapper)) w))"
    and "duckdb_ios_execute_prepared sg w h error_out (Inr result) =
           (case resultToJson_ios sg result of
              None \<Rightarrow> UndefinedBehaviour
            | Some json \<Rightarrow>
                Returns (Some (c_str json), None)
                  (engine_call (Statement_Execute h (bindings wrapper)) w))"
  using assms
  by (simp_all add: DuckDBNative_executePrepared_def duckdb_ios_execute_prepared_def
      NewStringUTF_def duplicate_string_def split: option.splits)

lemma serialized_text_facts:
  "resultToJson_ios sg result = queryResultToJson sg result"
  "\<forall>json. resultToJson sg result = Some json \<or> queryResultToJson sg result = Some json \<longrightarrow>
      take 6 (c_str json) \<noteq> ''ERROR:'' \<and> (floats_nul_free result \<longrightarrow> c_str json = json)"
  "wf_result result \<longrightarrow> resultToJson sg result \<noteq> None \<and> queryResultToJson sg result \<noteq> None"
proof -
  show "resultToJson_ios sg result = queryResultToJson sg result"
    by (rule resultToJson_ios_eq)
  show "\<forall>json. resultToJson sg result = Some json \<or> queryResultToJson sg result = Some json \<longrightarrow>
      take 6 (c_str json) \<noteq> ''ERROR:'' \<and> (floats_nul_free result \<longrightarrow> c_str json = json)"
    using json_not_error [where result = result and sg = sg] json_nul_free [where result = result and sg = sg]
      c_str_nul_free_id
    by blast
  show "wf_result result \<longrightarrow> resultToJson sg result \<noteq> None \<and> queryResultToJson sg result \<noteq> None"
    using resultToJson_defined [where result = result and sg = sg]
      queryResultToJson_defined [where result = result and sg = sg]
    by auto
qed

lemma example_facts:
  "(2 :: handle) \<noteq> 0" "connections example_world 2 = Some \<lparr>db_wrapper = 1\<rparr>"
  "(3 :: handle) \<noteq> 0" "statements example_world 3 = Some example_wrapper"
  "HasError failed_result" "chunks failed_result \<noteq> []"
  "GetError failed_result = ''Parser Error: syntax error''" "\<not> HasError example_result"
  "HasError nul_error_result" "GetError nul_error_result = ''bad'' @ [CHR 0x00] @ ''value''"
  "RowCount example_result = 2"
  by (simp_all add: example_world_def failed_result_def example_result_def nul_error_result_def
      RowCount_def)

text \<open>
  \<^bold>\<open>Claim C4\<close>, amended. When the result object of a query, of a statement or of a
  prepared execution carries an error, the call serializes nothing and returns the
  error alone: on Android the text \<^verbatim>\<open>ERROR:\<close> followed by the engine's message, on iOS
  a null result with the message in the error slot when the caller passed one. The
  message crosses the boundary as a C string: it is passed up to its first NUL byte,
  hence unchanged whenever it holds none. The rows of the result object play no
  part. When the result object carries no error, the call returns the serialized
  rows (the change count for a statement), read as a C string too; that text never
  starts with \<^verbatim>\<open>ERROR:\<close>, it is the serializer's text itself when the floating-point
  texts hold no NUL byte, it exists for every result object that covers its columns,
  and on iOS the error slot is left alone.
\<close>

theorem engine_error_only:
  assumes "c \<noteq> 0" and "connections w c = Some conn"
    and "h \<noteq> 0" and "statements w h = Some wrapper"
  shows "(HasError result \<longrightarrow>
            DuckDBNative_query sg w c (Some sql) (Inr result) =
              Returns (''ERROR:'' @ c_str (GetError result)) (engine_call (Connection_Query c sql) w)
          \<and> DuckDBNative_execute w c (Some sql) (Inr result) =
              Returns (''ERROR:'' @ c_str (GetError result)) (engine_call (Connection_Query c sql) w)
          \<and> DuckDBNative_executePrepared sg w h (Inr result) =
              Returns (''ERROR:'' @ c_str (GetError result))
                (engine_call (Statement_Execute h (bindings wrapper)) w)
          \<and> duckdb_ios_query sg w c (Some sql) error_out (Inr result) =
              Returns (None, if error_out then Some (c_str (GetError result)) else None)
                (engine_call (Connection_Query c sql) w)
          \<and> duckdb_ios_execute w c (Some sql) rows_changed_out error_out (Inr result) =
              Returns (False, None, if error_out then Some (c_str (GetError result)) else None)
                (engine_call (Connection_Query c sql) w)
          \<and> duckdb_ios_execute_prepared sg w h error_out (Inr result) =
              Returns (None, if error_out then Some (c_str (GetError result)) else None)
                (engine_call (Statement_Execute h (bindings wrapper)) w))
       \<and> (CHR 0x00 \<notin> set (GetError result) \<longrightarrow> c_str (GetError result) = GetError result)
       \<and> (\<not> HasError result \<longrightarrow>
            DuckDBNative_query sg w c (Some sql) (Inr result) =
              (case resultToJson sg result of
                 None \<Rightarrow> UndefinedBehaviour
               | Some json \<Rightarrow> Returns (c_str json) (engine_call (Connection_Query c sql) w))
          \<and> DuckDBNative_execute w c (Some sql) (Inr result) =
              Returns (changes_json result) (engine_call (Connection_Query c sql) w)
          \<and> DuckDBNative_executePrepared sg w h (Inr result) =
              (case queryResultToJson sg result of
                 None \<Rightarrow> UndefinedBehaviour
               | Some json \<Rightarrow>
                   Returns (c_str json) (engine_call (Statement_Execute h (bindings wrapper)) w))
          \<and> duckdb_ios_query sg w c (Some sql) error_out (Inr result) =
              (case resultToJson_ios sg result of
                 None \<Rightarrow> UndefinedBehaviour
               | Some json \<Rightarrow>
                   Returns (Some (c_str json), None) (engine_call (Connection_Query c sql) w))
          \<and> duckdb_ios_execute w c (Some sql) rows_changed_out error_out (Inr result) =
              Returns (True, if rows_changed_out then Some (word_of_nat (RowCount result)) else None,
                       None)
                (engine_call (Connection_Query c sql) w)
          \<and> duckdb_ios_execute_prepared sg w h error_out (Inr result) =
              (case resultToJson_ios sg result of
                 None \<Rightarrow> UndefinedBehaviour
               | Some json \<Rightarrow>
                   Returns (Some (c_str json), None)
                     (engine_call (Statement_Execute h (bindings wrapper)) w)))
       \<and> resultToJson_ios sg result = queryResultToJson sg result
       \<and> (\<forall>json. resultToJson sg result = Some json \<or> queryResultToJson sg result = Some json \<longrightarrow>
            take 6 (c_str json) \<noteq> ''ERROR:'' \<and> (floats_nul_free result \<longrightarrow> c_str json = json))
       \<and> (wf_result result \<longrightarrow> resultToJson sg result \<noteq> None \<and> queryResultToJson sg result \<noteq> None)"
proof -
  have err: "HasError result \<longrightarrow>
            DuckDBNative_query sg w c (Some sql) (Inr result) =
              Returns (''ERROR:'' @ c_str (GetError result)) (engine_call (Connection_Query c sql) w)
          \<and> DuckDBNative_execute w c (Some sql) (Inr result) =
              Returns (''ERROR:'' @ c_str (GetError result)) (engine_call (Connection_Query c sql) w)
          \<and> DuckDBNative_executePrepared sg w h (Inr result) =
              Returns (''ERROR:'' @ c_str (GetError result))
                (engine_call (Statement_Execute h (bindings wrapper)) w)
          \<and> duckdb_ios_query sg w c (Some sql) error_out (Inr result) =
              Returns (None, if error_out then Some (c_str (GetError result)) else None)
                (engine_call (Connection_Query c sql) w)
          \<and> duckdb_ios_execute w c (Some sql) rows_changed_out error_out (Inr result) =
              Returns (False, None, if error_out then Some (c_str (GetError result)) else None)
                (engine_call (Connection_Query c sql) w)
          \<and> duckdb_ios_execute_prepared sg w h error_out (Inr result) =
              Returns (None, if error_out then Some (c_str (GetError result)) else None)
                (engine_call (Statement_Execute h (bindings wrapper)) w)"
  proof
    assume e: "HasError result"
    show "DuckDBNative_query sg w c (Some sql) (Inr result) =
              Returns (''ERROR:'' @ c_str (GetError result)) (engine_call (Connection_Query c sql) w)
          \<and> DuckDBNative_execute w c (Some sql) (Inr result) =
              Returns (''ERROR:'' @ c_str (GetError result)) (engine_call (Connection_Query c sql) w)
          \<and> DuckDBNative_executePrepared sg w h (Inr result) =
              Returns (''ERROR:'' @ c_str (GetError result))
                (engine_call (Statement_Execute h (bindings wrapper)) w)
          \<and> duckdb_ios_query sg w c (Some sql) error_out (Inr result) =
              Returns (None, if error_out then Some (c_str (GetError result)) else None)
                (engine_call (Connection_Query c sql) w)
          \<and> duckdb_ios_execute w c (Some sql) rows_changed_out error_out (Inr result) =
              Returns (False, None, if error_out then Some (c_str (GetError result)) else None)
                (engine_call (Connection_Query c sql) w)
          \<and> duckdb_ios_execute_prepared sg w h error_out (Inr result) =
              Returns (None, if error_out then Some (c_str (GetError result)) else None)
                (engine_call (Statement_Execute h (bindings wrapper)) w)"
      by (intro conjI engine_error_query [OF assms(1,2) e] engine_error_prepared [OF assms(3,4) e])
  qed
  have verb: "CHR 0x00 \<notin> set (GetError result) \<longrightarrow> c_str (GetError result) = GetError result"
    by (simp add: c_str_nul_free)
  have ok: "\<not> HasError result \<longrightarrow>
            DuckDBNative_query sg w c (Some sql) (Inr result) =
              (case resultToJson sg result of
                 None \<Rightarrow> UndefinedBehaviour
               | Some json \<Rightarrow> Returns (c_str json) (engine_call (Connection_Query c sql) w))
          \<and> DuckDBNative_execute w c (Some sql) (Inr result) =
              Returns (changes_json result) (engine_call (Connection_Query c sql) w)
          \<and> DuckDBNative_executePrepared sg w h (Inr result) =
              (case queryResultToJson sg result of
                 None \<Rightarrow> UndefinedBehaviour
               | Some json \<Rightarrow>
                   Returns (c_str json) (engine_call (Statement_Execute h (bindings wrapper)) w))
          \<and> duckdb_ios_query sg w c (Some sql) error_out (Inr result) =
              (case resultToJson_ios sg result of
                 None \<Rightarrow> UndefinedBehaviour
               | Some json \<Rightarrow>
                   Returns (Some (c_str json), None) (engine_call (Connection_Query c sql) w))
          \<and> duckdb_ios_execute w c (Some sql) rows_changed_out error_out (Inr result) =
              Returns (True, if rows_changed_out then Some (word_of_nat (RowCount result)) else None,
                       None)
                (engine_call (Connection_Query c sql) w)
          \<and> duckdb_ios_execute_prepared sg w h error_out (Inr result) =
              (case resultToJson_ios sg result of
                 None \<Rightarrow> UndefinedBehaviour
               | Some json \<Rightarrow>
                   Returns (Some (c_str json), None)
                     (engine_call (Statement_Execute h (bindings wrapper)) w))"
  proof
    assume n: "\<not> HasError result"
    show "DuckDBNative_query sg w c (Some sql) (Inr result) =
              (case resultToJson sg result of
                 None \<Rightarrow> UndefinedBehaviour
               | Some json \<Rightarrow> Returns (c_str json) (engine_call (Connection_Query c sql) w))
          \<and> DuckDBNative_execute w c (Some sql) (Inr result) =
              Returns (changes_json result) (engine_call (Connection_Query c sql) w)
          \<and> DuckDBNative_executePrepared sg w h (Inr result) =
              (case queryResultToJson sg result of
                 None \<Rightarrow> UndefinedBehaviour
               | Some json \<Rightarrow>
                   Returns (c_str json) (engine_call (Statement_Execute h (bindings wrapper)) w))
          \<and> duckdb_ios_query sg w c (Some sql) error_out (Inr result) =
              (case resultToJson_ios sg result of
                 None \<Rightarrow> UndefinedBehaviour
               | Some json \<Rightarrow>
                   Returns (Some (c_str json), None) (engine_call (Connection_Query c sql) w))
          \<and> duckdb_ios_execute w c (Some sql) rows_changed_out error_out (Inr result) =
              Returns (True, if rows_changed_out then Some (word_of_nat (RowCount result)) else None,
                       None)
                (engine_call (Connection_Query c sql) w)
          \<and> duckdb_ios_execute_prepared sg w h error_out (Inr result) =
              (case resultToJson_ios sg result of
                 None \<Rightarrow> UndefinedBehaviour
               | Some json \<Rightarrow>
                   Returns (Some (c_str json), None)
                     (engine_call (Statement_Execute h (bindings wrapper)) w))"
      by (intro conjI success_query [OF assms(1,2) n] success_prepared [OF assms(3,4) n])
  qed
  from err verb ok serialized_text_facts [where result = result and sg = sg] show ?thesis
    by (intro conjI)
qed

theorem engine_error_only_witness:
  \<open>(2 :: handle) \<noteq> 0 \<and> connections example_world 2 = Some \<lparr>db_wrapper = 1\<rparr>
   \<and> (3 :: handle) \<noteq> 0 \<and> statements example_world 3 = Some example_wrapper
   \<and> HasError failed_result \<and> chunks failed_result \<noteq> []
   \<and> DuckDBNative_query True example_world 2 (Some ''SELEC 1'') (Inr failed_result) =
       Returns ''ERROR:Parser Error: syntax error''
         (engine_call (Connection_Query 2 ''SELEC 1'') example_world)
   \<and> duckdb_ios_query True example_world 2 (Some ''SELEC 1'') True (Inr failed_result) =
       Returns (None, Some ''Parser Error: syntax error'')
         (engine_call (Connection_Query 2 ''SELEC 1'') example_world)
   \<and> duckdb_ios_execute_prepared True example_world 3 False (Inr failed_result) =
       Returns (None, None) (engine_call (Statement_Execute 3 []) example_world)
   \<and> \<not> HasError example_result
   \<and> DuckDBNative_query True example_world 2 (Some ''SELECT a, b FROM t'') (Inr example_result) =
       Returns ''[{"a":1,"b":"x"},{"a":2,"b":null}]''
         (engine_call (Connection_Query 2 ''SELECT a, b FROM t'') example_world)
   \<and> DuckDBNative_execute example_world 2 (Some ''SELECT a, b FROM t'') (Inr example_result) =
       Returns ''{"changes":2}''
         (engine_call (Connection_Query 2 ''SELECT a, b FROM t'') example_world)\<close>
proof -
  note h = example_facts(1-4)
  have m: "c_str ''Parser Error: syntax error'' = ''Parser Error: syntax error''"
    by simp
  have a: "DuckDBNative_query True example_world 2 (Some ''SELEC 1'') (Inr failed_result) =
       Returns ''ERROR:Parser Error: syntax error''
         (engine_call (Connection_Query 2 ''SELEC 1'') example_world)"
    and b: "duckdb_ios_query True example_world 2 (Some ''SELEC 1'') True (Inr failed_result) =
       Returns (None, Some ''Parser Error: syntax error'')
         (engine_call (Connection_Query 2 ''SELEC 1'') example_world)"
    using engine_error_only [OF h, of failed_result True "''SELEC 1''" True] example_facts(5)
    by (simp_all only: example_facts(7) m simp_thms if_True append.simps)
  have c: "duckdb_ios_execute_prepared True example_world 3 False (Inr failed_result) =
       Returns (None, None) (engine_call (Statement_Execute 3 []) example_world)"
    using engine_error_only [OF h, of failed_result True "''SELEC 1''" False] example_facts(5)
    by (simp add: example_wrapper_def)
  have j: \<open>c_str ''[{"a":1,"b":"x"},{"a":2,"b":null}]'' = ''[{"a":1,"b":"x"},{"a":2,"b":null}]''\<close>
    by simp
  have d: \<open>DuckDBNative_query True example_world 2 (Some ''SELECT a, b FROM t'') (Inr example_result) =
       Returns ''[{"a":1,"b":"x"},{"a":2,"b":null}]''
         (engine_call (Connection_Query 2 ''SELECT a, b FROM t'') example_world)\<close>
    using engine_error_only [OF h, of example_result True "''SELECT a, b FROM t''"] example_facts(8)
    by (simp add: example_materialized j)
  have k: \<open>changes_json example_result = ''{"changes":2}''\<close>
    by (simp add: changes_json_def example_facts(11) put_int64_def to_dec.simps dec_digit_def)
  have e: \<open>DuckDBNative_execute example_world 2 (Some ''SELECT a, b FROM t'') (Inr example_result) =
       Returns ''{"changes":2}''
         (engine_call (Connection_Query 2 ''SELECT a, b FROM t'') example_world)\<close>
    using engine_error_only [OF h, of example_result True "''SELECT a, b FROM t''"] example_facts(8)
    by (simp add: k)
  from h example_facts(5,6,8) a b c d e show ?thesis
    by (intro conjI)
qed

text \<open>
  \<^bold>\<open>Claim C4\<close> as stated, with the message passed through verbatim, fails for a message
  that holds a NUL byte: of the message \<^verbatim>\<open>bad\<close>, NUL, \<^verbatim>\<open>value\<close> the caller receives
  \<^verbatim>\<open>ERROR:bad\<close> on Android and \<^verbatim>\<open>bad\<close> on iOS.
\<close>

theorem engine_error_verbatim_counterexample:
  "HasError nul_error_result
   \<and> ''ERROR:'' @ GetError nul_error_result = ''ERROR:bad'' @ [CHR 0x00] @ ''value''
   \<and> DuckDBNative_query True example_world 2 (Some ''SELECT 1'') (Inr nul_error_result) =
       Returns ''ERROR:bad'' (engine_call (Connection_Query 2 ''SELECT 1'') example_world)
   \<and> DuckDBNative_query True example_world 2 (Some ''SELECT 1'') (Inr nul_error_result) \<noteq>
       Returns (''ERROR:'' @ GetError nul_error_result)
         (engine_call (Connection_Query 2 ''SELECT 1'') example_world)
   \<and> duckdb_ios_query True example_world 2 (Some ''SELECT 1'') True (Inr nul_error_result) =
       Returns (None, Some ''bad'') (engine_call (Connection_Query 2 ''SELECT 1'') example_world)
   \<and> duckdb_ios_query True example_world 2 (Some ''SELECT 1'') True (Inr nul_error_result) \<noteq>
       Returns (None, Some (GetError nul_error_result))
         (engine_call (Connection_Query 2 ''SELECT 1'') example_world)"
proof -
  have t: "c_str (''bad'' @ [CHR 0x00] @ ''value'') = ''bad''"
    by simp
  have a: "DuckDBNative_query True example_world 2 (Some ''SELECT 1'') (Inr nul_error_result) =
       Returns ''ERROR:bad'' (engine_call (Connection_Query 2 ''SELECT 1'') example_world)"
    using engine_error_query(1) [OF example_facts(1,2,9), of True "''SELECT 1''"]
    by (simp add: example_facts(10) t)
  have b: "duckdb_ios_query True example_world 2 (Some ''SELECT 1'') True (Inr nul_error_result) =
       Returns (None, Some ''bad'') (engine_call (Connection_Query 2 ''SELECT 1'') example_world)"
    using engine_error_query(3) [OF example_facts(1,2,9), of True "''SELECT 1''" True]
    by (simp add: example_facts(10) t)
  show ?thesis
    by (simp add: a b example_facts(9,10))
qed

end
